theory Spec2Isabelle
  imports Complex_Main "HOL-Library.Multiset"
begin

section \<open>Values shared by the three edge functions\<close>

text \<open>
  The handlers build JavaScript object literals and hand them to \<open>JSON.stringify\<close>.
  The object literals are modelled as values of \<open>json\<close>; an object keeps its keys in
  the order of the literal.  A key whose value is \<open>undefined\<close> is dropped by
  \<open>JSON.stringify\<close>, so such a key is left out of the list (see \<open>opt_key\<close>).
\<close>

datatype json =
    JNull
  | JBool bool
  | JNum rat
  | JStr string
  | JArr "json list"
  | JObj "(string \<times> json) list"

definition field :: "string \<Rightarrow> json \<Rightarrow> json option" where
  "field k j = (case j of JObj kvs \<Rightarrow> map_of kvs k | _ \<Rightarrow> None)"

text \<open>A nullable text column read into a JSON value: \<open>null\<close> stays \<open>null\<close>.\<close>

definition jstr_opt :: "string option \<Rightarrow> json" where
  "jstr_opt x = (case x of None \<Rightarrow> JNull | Some s \<Rightarrow> JStr s)"

definition jnum_opt :: "rat option \<Rightarrow> json" where
  "jnum_opt x = (case x of None \<Rightarrow> JNull | Some n \<Rightarrow> JNum n)"

text \<open>\<open>key: xs?.map(f)\<close>: the key is present only when \<open>xs\<close> is not null.\<close>

definition opt_key :: "string \<Rightarrow> 'a list option \<Rightarrow> ('a \<Rightarrow> json) \<Rightarrow> (string \<times> json) list" where
  "opt_key k xs f = (case xs of None \<Rightarrow> [] | Some ys \<Rightarrow> [(k, JArr (map f ys))])"

text \<open>
  JavaScript's \<open>x || d\<close> on a nullable string: \<open>null\<close>, \<open>undefined\<close> and the empty
  string are falsy and give the default.
\<close>

definition truthy :: "string option \<Rightarrow> bool" where
  "truthy x = (case x of None \<Rightarrow> False | Some s \<Rightarrow> s \<noteq> [])"

definition or_str :: "string option \<Rightarrow> string \<Rightarrow> string" where
  "or_str x d = (case x of None \<Rightarrow> d | Some s \<Rightarrow> if s = [] then d else s)"

text \<open>\<open>xs || []\<close> on a nullable array: an empty array is truthy.\<close>

definition or_list :: "'a list option \<Rightarrow> 'a list" where
  "or_list xs = (case xs of None \<Rightarrow> [] | Some ys \<Rightarrow> ys)"

text \<open>A nullable string inside a template literal: \<open>null\<close> prints as the word null.\<close>

definition tmpl :: "string option \<Rightarrow> string" where
  "tmpl x = (case x of None \<Rightarrow> ''null'' | Some s \<Rightarrow> s)"

text \<open>An array index inside a template literal prints in decimal.\<close>

definition digit_char :: "nat \<Rightarrow> char" where
  "digit_char d = char_of (48 + d)"

fun show_nat :: "nat \<Rightarrow> string" where
  "show_nat n = (if n < 10 then [digit_char n] else show_nat (n div 10) @ [digit_char (n mod 10)])"

declare show_nat.simps [simp del]

text \<open>Reading a decimal numeral back, used to show that \<open>show_nat\<close> is injective.\<close>

definition read_nat :: "string \<Rightarrow> nat" where
  "read_nat s = foldl (\<lambda>acc c. 10 * acc + (of_char c - 48)) 0 s"

definition dq :: char where
  "dq = CHR 0x22"

definition sq :: char where
  "sq = CHR 0x27"

definition nl :: string where
  "nl = [CHR 0x0A]"

section \<open>Rows of the store\<close>

text \<open>
  The handlers read rows as untyped objects.  A column that a handler guards with \<open>||\<close>,
  \<open>?:\<close> or \<open>?.\<close> is nullable here (\<open>None\<close> is \<open>null\<close>); the other text columns
  are plain strings.  Strings are lists of bytes; the five characters that \<open>escapeXml\<close>
  replaces and the letters that change case are single bytes.
\<close>

record scan =
  id :: string
  ecu_name :: string
  ecu_type :: string
  version :: "string option"
  manufacturer :: "string option"
  architecture :: "string option"
  file_name :: string
  file_hash :: "string option"
  file_size :: "rat option"
  status :: string
  created_at :: string
  completed_at :: "string option"
  risk_score :: "rat option"
  executive_summary :: "string option"

record component =
  component_name :: string
  version :: "string option"
  license :: "string option"
  source_file :: "string option"
  vulnerabilities :: "string list option"

section \<open>export-sbom\<close>

subsection \<open>escapeXml\<close>

text \<open>\<open>str.replace(/c/g, r)\<close> for a one-character pattern.\<close>

definition replace_all :: "char \<Rightarrow> string \<Rightarrow> string \<Rightarrow> string" where
  "replace_all c r s = concat (map (\<lambda>x. if x = c then r else [x]) s)"

definition escapeXml :: "string \<Rightarrow> string" where
  "escapeXml str =
     (if str = [] then []
      else replace_all sq ''&apos;''
            (replace_all dq ''&quot;''
              (replace_all CHR ''>'' ''&gt;''
                (replace_all CHR ''<'' ''&lt;''
                  (replace_all CHR ''&'' ''&amp;'' str)))))"

subsection \<open>String helpers of the generators\<close>

text \<open>\<open>Array.prototype.join\<close>.\<close>

fun join :: "string \<Rightarrow> string list \<Rightarrow> string" where
  "join sep [] = []"
| "join sep [x] = x"
| "join sep (x # y # ys) = x @ sep @ join sep (y # ys)"

text \<open>A double-quoted attribute value.\<close>

definition q :: "string \<Rightarrow> string" where
  "q v = dq # v @ [dq]"

text \<open>\<open>xs.map((x, index) => f(x, index))\<close>.\<close>

definition map_index :: "(nat \<Rightarrow> 'a \<Rightarrow> 'b) \<Rightarrow> 'a list \<Rightarrow> 'b list" where
  "map_index f xs = map (\<lambda>(i, x). f i x) (enumerate 0 xs)"

text \<open>\<open>xs.flatMap((x, index) => f(x, index))\<close> where \<open>f\<close> returns an array.\<close>

definition flatMap_index :: "(nat \<Rightarrow> 'a \<Rightarrow> 'b list) \<Rightarrow> 'a list \<Rightarrow> 'b list" where
  "flatMap_index f xs = concat (map_index f xs)"

subsection \<open>generateCycloneDX\<close>

text \<open>
  \<open>now\<close> is the text of \<open>new Date().toISOString()\<close> at the call.  The generators
  return \<open>JSON.stringify(doc, null, 2)\<close>; the serialiser is the parameter
  \<open>stringify\<close>, and the object literal it is applied to is the \<open>_doc\<close> definition.
\<close>

definition cyclonedx_component :: "nat \<Rightarrow> component \<Rightarrow> json" where
  "cyclonedx_component index cmp = JObj
     [(''type'', JStr ''library''),
      (''bom-ref'', JStr (''component-'' @ show_nat index)),
      (''name'', JStr (component_name cmp)),
      (''version'', JStr (or_str (component.version cmp) ''unknown'')),
      (''licenses'',
         (if truthy (component.license cmp)
          then JArr [JObj [(''license'', JObj [(''id'', jstr_opt (component.license cmp))])]]
          else JArr [])),
      (''purl'', JStr (''pkg:generic/'' @ component_name cmp @ ''@''
                        @ or_str (component.version cmp) ''unknown'')),
      (''properties'',
         JArr [JObj [(''name'', JStr ''source_file''),
                     (''value'', JStr (or_str (source_file cmp) ''unknown''))]])]"

definition cyclonedx_vulnerability :: "nat \<Rightarrow> string \<Rightarrow> json" where
  "cyclonedx_vulnerability compIndex cve = JObj
     [(''id'', JStr cve),
      (''source'', JObj [(''name'', JStr ''NVD''),
                         (''url'', JStr (''https://nvd.nist.gov/vuln/detail/'' @ cve))]),
      (''affects'', JArr [JObj [(''ref'', JStr (''component-'' @ show_nat compIndex))]])]"

definition cyclonedx_doc :: "string \<Rightarrow> scan \<Rightarrow> component list \<Rightarrow> json" where
  "cyclonedx_doc now scan components = JObj
     [(''bomFormat'', JStr ''CycloneDX''),
      (''specVersion'', JStr ''1.5''),
      (''serialNumber'', JStr (''urn:uuid:'' @ scan.id scan)),
      (''version'', JNum 1),
      (''metadata'', JObj
         [(''timestamp'', JStr now),
          (''tools'', JArr [JObj [(''vendor'', JStr ''ECU Security Scanner''),
                                  (''name'', JStr ''Automotive Firmware Analyzer''),
                                  (''version'', JStr ''1.0.0'')]]),
          (''component'', JObj
             [(''type'', JStr ''firmware''),
              (''name'', JStr (ecu_name scan)),
              (''version'', JStr (or_str (scan.version scan) ''unknown'')),
              (''description'', JStr (ecu_type scan @ '' ECU from ''
                                       @ or_str (manufacturer scan) ''Unknown'')),
              (''properties'', JArr
                 [JObj [(''name'', JStr ''architecture''),
                        (''value'', jstr_opt (architecture scan))],
                  JObj [(''name'', JStr ''manufacturer''),
                        (''value'', JStr (or_str (manufacturer scan) ''Unknown''))]])])]),
      (''components'', JArr (map_index cyclonedx_component components)),
      (''vulnerabilities'', JArr (flatMap_index
         (\<lambda>compIndex cmp.
            map (cyclonedx_vulnerability compIndex) (or_list (component.vulnerabilities cmp)))
         components))]"

definition generateCycloneDX :: "(json \<Rightarrow> string) \<Rightarrow> string \<Rightarrow> scan \<Rightarrow> component list \<Rightarrow> string" where
  "generateCycloneDX stringify now scan components = stringify (cyclonedx_doc now scan components)"

subsection \<open>generateSPDX\<close>

definition spdx_root_package :: "scan \<Rightarrow> json" where
  "spdx_root_package scan = JObj
     [(''SPDXID'', JStr ''SPDXRef-RootPackage''),
      (''name'', JStr (ecu_name scan)),
      (''versionInfo'', JStr (or_str (scan.version scan) ''unknown'')),
      (''packageFileName'', JStr (file_name scan)),
      (''downloadLocation'', JStr ''NOASSERTION''),
      (''filesAnalyzed'', JBool False),
      (''supplier'',
         JStr (if truthy (manufacturer scan)
               then ''Organization: '' @ tmpl (manufacturer scan)
               else ''NOASSERTION'')),
      (''primaryPackagePurpose'', JStr ''FIRMWARE'')]"

definition spdx_external_ref :: "string \<Rightarrow> json" where
  "spdx_external_ref cve = JObj
     [(''referenceCategory'', JStr ''SECURITY''),
      (''referenceType'', JStr ''cpe23Type''),
      (''referenceLocator'', JStr cve)]"

definition spdx_package :: "nat \<Rightarrow> component \<Rightarrow> json" where
  "spdx_package index cmp = JObj
     [(''SPDXID'', JStr (''SPDXRef-Package-'' @ show_nat index)),
      (''name'', JStr (component_name cmp)),
      (''versionInfo'', JStr (or_str (component.version cmp) ''NOASSERTION'')),
      (''downloadLocation'', JStr ''NOASSERTION''),
      (''filesAnalyzed'', JBool False),
      (''licenseConcluded'', JStr (or_str (component.license cmp) ''NOASSERTION'')),
      (''licenseDeclared'', JStr (or_str (component.license cmp) ''NOASSERTION'')),
      (''copyrightText'', JStr ''NOASSERTION''),
      (''externalRefs'', JArr (map spdx_external_ref (or_list (component.vulnerabilities cmp))))]"

definition spdx_relationship :: "nat \<Rightarrow> component \<Rightarrow> json" where
  "spdx_relationship index cmp = JObj
     [(''spdxElementId'', JStr ''SPDXRef-RootPackage''),
      (''relationshipType'', JStr ''CONTAINS''),
      (''relatedSpdxElement'', JStr (''SPDXRef-Package-'' @ show_nat index))]"

definition spdx_doc :: "string \<Rightarrow> scan \<Rightarrow> component list \<Rightarrow> json" where
  "spdx_doc now scan components = JObj
     [(''spdxVersion'', JStr ''SPDX-2.3''),
      (''dataLicense'', JStr ''CC0-1.0''),
      (''SPDXID'', JStr ''SPDXRef-DOCUMENT''),
      (''name'', JStr (''SBOM for '' @ ecu_name scan)),
      (''documentNamespace'', JStr (''https://spdx.org/spdxdocs/'' @ scan.id scan)),
      (''creationInfo'', JObj
         [(''created'', JStr now),
          (''creators'', JArr [JStr ''Tool: ECU Security Scanner-1.0.0'']),
          (''licenseListVersion'', JStr ''3.19'')]),
      (''packages'', JArr (spdx_root_package scan # map_index spdx_package components)),
      (''relationships'', JArr (map_index spdx_relationship components))]"

definition generateSPDX :: "(json \<Rightarrow> string) \<Rightarrow> string \<Rightarrow> scan \<Rightarrow> component list \<Rightarrow> string" where
  "generateSPDX stringify now scan components = stringify (spdx_doc now scan components)"

subsection \<open>generateSWID\<close>

text \<open>
  \<open>entities\<close> and \<open>payloads\<close> are computed by the source but never placed in the
  document; they are kept here as the source has them.
\<close>

definition swid_entities :: "component list \<Rightarrow> string" where
  "swid_entities components =
     join nl (map (\<lambda>cmp. ''    <Entity name='' @ q (escapeXml (component_name cmp))
                            @ '' role='' @ q ''softwareCreator'' @ '' />'') components)"

definition swid_payloads :: "component list \<Rightarrow> string" where
  "swid_payloads components =
     join [] (map_index (\<lambda>index cmp.
        nl @ ''    <Payload>'' @ nl
        @ ''      <File name=''
        @ q (escapeXml (or_str (source_file cmp) (component_name cmp))) @ '' '' @ nl
        @ ''            version='' @ q (escapeXml (or_str (component.version cmp) ''unknown'')) @ nl
        @ ''            size='' @ q ''0'' @ '' />'' @ nl
        @ ''    </Payload>'') components)"

definition swid_file :: "nat \<Rightarrow> component \<Rightarrow> string" where
  "swid_file i cmp =
     ''      <File name='' @ q (escapeXml (component_name cmp))
     @ '' version='' @ q (escapeXml (or_str (component.version cmp) ''unknown'')) @ '' />''"

definition swid_lines :: "scan \<Rightarrow> component list \<Rightarrow> string list" where
  "swid_lines scan components =
     [''<?xml version='' @ q ''1.0'' @ '' encoding='' @ q ''UTF-8'' @ ''?>'',
      ''<SoftwareIdentity'',
      ''    xmlns='' @ q ''http://standards.iso.org/iso/19770/-2/2015/schema.xsd'',
      ''    name='' @ q (escapeXml (ecu_name scan)),
      ''    tagId='' @ q (scan.id scan),
      ''    version='' @ q (escapeXml (or_str (scan.version scan) ''1.0.0'')),
      ''    versionScheme='' @ q ''semver'' @ ''>'',
      ''  '',
      ''  <Entity name='' @ q (escapeXml (or_str (manufacturer scan) ''Unknown''))
        @ '' role='' @ q ''tagCreator'' @ '' />'',
      ''  <Entity name='' @ q ''ECU Security Scanner'' @ '' role='' @ q ''tagCreator'' @ '' />'',
      ''  '',
      ''  <Meta '',
      ''    product='' @ q (escapeXml (ecu_name scan)),
      ''    colloquialVersion='' @ q (escapeXml (or_str (scan.version scan) ''unknown'')),
      ''    revision='' @ q (or_str (architecture scan) ''unknown''),
      ''    edition='' @ q (escapeXml (ecu_type scan)) @ '' />'',
      [],
      ''  <Payload>'',
      ''    <Directory name='' @ q ''components'' @ ''>'',
      join nl (map_index swid_file components),
      ''    </Directory>'',
      ''  </Payload>'',
      [],
      ''</SoftwareIdentity>'']"

definition generateSWID :: "scan \<Rightarrow> component list \<Rightarrow> string" where
  "generateSWID scan components = join nl (swid_lines scan components)"

subsection \<open>The export-sbom handler\<close>

text \<open>
  A response is a status and a body; the body is the object given to
  \<open>JSON.stringify\<close>, or raw text.  \<open>scan\<close> and \<open>components\<close> are the \<open>data\<close> fields of
  the two store queries: \<open>None\<close> is JavaScript's \<open>null\<close> (no row for \<open>.single()\<close>, or a
  failed query).
\<close>

datatype body = JsonBody json | TextBody string

record response =
  status :: nat
  content :: body
  disposition :: "string option"

definition json_response :: "nat \<Rightarrow> json \<Rightarrow> response" where
  "json_response st j = \<lparr>status = st, content = JsonBody j, disposition = None\<rparr>"

definition error_response :: "nat \<Rightarrow> string \<Rightarrow> response" where
  "error_response st msg = json_response st (JObj [(''error'', JStr msg)])"

definition envelope :: "string \<Rightarrow> string \<Rightarrow> string \<Rightarrow> json" where
  "envelope exportData filename contentType =
     JObj [(''data'', JStr exportData), (''filename'', JStr filename),
           (''contentType'', JStr contentType)]"

definition export_sbom ::
  "(json \<Rightarrow> string) \<Rightarrow> string \<Rightarrow> scan option \<Rightarrow> component list option \<Rightarrow> string \<Rightarrow> response" where
  "export_sbom stringify now scan components format =
     (case (scan, components) of
        (Some sc, Some comps) \<Rightarrow>
          (if format = ''cyclonedx'' then
             json_response 200 (envelope (generateCycloneDX stringify now sc comps)
               (ecu_name sc @ ''-sbom-cyclonedx.json'') ''application/json'')
           else if format = ''spdx'' then
             json_response 200 (envelope (generateSPDX stringify now sc comps)
               (ecu_name sc @ ''-sbom-spdx.json'') ''application/json'')
           else if format = ''swid'' then
             json_response 200 (envelope (generateSWID sc comps)
               (ecu_name sc @ ''-sbom-swid.xml'') ''application/xml'')
           else error_response 400 ''Invalid format. Use: cyclonedx, spdx, or swid'')
      | _ \<Rightarrow> error_response 404 ''Scan or components not found'')"

text \<open>
  The component query \<open>from('sbom_components').select('*').eq('scan_id', scanId)\<close>
  over a table of rows keyed by their scan id: a query that succeeds gives the array of
  matching rows, which is empty when no row matches.
\<close>

definition select_components :: "(string \<times> component) list \<Rightarrow> string \<Rightarrow> component list option" where
  "select_components table scanId = Some (map snd (filter (\<lambda>row. fst row = scanId) table))"

subsection \<open>Concrete inputs for export-sbom\<close>

definition example_scan :: scan where
  "example_scan =
     \<lparr>id = ''7d0f4c1e-0000-4000-8000-000000000001'', ecu_name = ''BCM'', ecu_type = ''Body'',
      version = Some ''2.1'', manufacturer = None, architecture = Some ''<ARM>'',
      file_name = ''bcm.bin'', file_hash = None, file_size = None, status = ''completed'',
      created_at = ''2024-01-01T00:00:00Z'', completed_at = None, risk_score = None,
      executive_summary = None\<rparr>"

definition example_components :: "component list" where
  "example_components =
     [\<lparr>component_name = ''openssl'', version = Some ''1.0.2'', license = Some ''OpenSSL'',
       source_file = Some ''libssl.so'', vulnerabilities = Some [''CVE-2016-2107'']\<rparr>,
      \<lparr>component_name = ''A&B<C>'' @ [dq] @ ''D'' @ [sq] @ ''E'', version = None, license = None,
       source_file = None, vulnerabilities = Some [''CVE-2020-0001'', ''CVE-2020-0002'']\<rparr>]"

text \<open>
  The substitution the specification describes, one character at a time: each of the five
  characters becomes its entity, every other character stays.  \<open>escapeXml\<close> is compared
  with it below.
\<close>

definition escape_char :: "char \<Rightarrow> string" where
  "escape_char c =
     (if c = CHR ''&'' then ''&amp;''
      else if c = CHR ''<'' then ''&lt;''
      else if c = CHR ''>'' then ''&gt;''
      else if c = dq then ''&quot;''
      else if c = sq then ''&apos;''
      else [c])"

section \<open>fetch-cve\<close>

subsection \<open>The registry's answer\<close>

text \<open>
  The parsed body of the registry's answer, with the shape the handler reads.  A property
  the handler reaches through \<open>?.\<close>, guards with \<open>||\<close> or filters with \<open>Boolean\<close> is
  optional; \<open>None\<close> stands for \<open>undefined\<close> and \<open>null\<close>.
\<close>

record cvssData =
  baseScore :: "rat option"
  baseSeverity :: "string option"

text \<open>
  An entry of \<open>cvssMetricV31\<close> or \<open>cvssMetricV2\<close>.  The handler reads the severity of a
  v3.1 entry from its \<open>cvssData\<close> and the severity of a v2 entry from the entry itself.
\<close>

record cvssMetric =
  cvssData :: cvssData
  baseSeverity :: "string option"

record metrics =
  cvssMetricV31 :: "cvssMetric list option"
  cvssMetricV2 :: "cvssMetric list option"

record lang_string =
  lang :: string
  "value" :: "string option"

record weakness =
  description :: "lang_string list option"

record reference =
  url :: "string option"
  source :: "string option"
  tags :: "string list option"

record cve =
  metrics :: "metrics option"
  weaknesses :: "weakness list option"
  references :: "reference list option"
  descriptions :: "lang_string list option"
  published :: "string option"
  lastModified :: "string option"
  configurations :: "json option"

record nvd_item =
  cve :: "cve option"

record nvd_data =
  vulnerabilities :: "nvd_item list option"

subsection \<open>The cache row\<close>

text \<open>
  A row of \<open>cve_cache\<close>.  \<open>fetched_at\<close> is the time in milliseconds that
  \<open>new Date(row.fetched_at).getTime()\<close> reads from the timestamp column, and for a new
  row the time \<open>new Date()\<close> that \<open>toISOString\<close> writes.
\<close>

record cve_entry =
  cve_id :: string
  description :: string
  cvss_score :: "rat option"
  severity :: "string option"
  published_date :: "string option"
  modified_date :: "string option"
  reference_links :: "reference list"
  cwe_ids :: "string list"
  affected_products :: json
  fetched_at :: int

subsection \<open>Extraction\<close>

text \<open>\<open>xs?.[0]\<close>: the first element when the array is there and not empty.\<close>

definition first :: "'a list option \<Rightarrow> 'a option" where
  "first xs = (case xs of None \<Rightarrow> None | Some [] \<Rightarrow> None | Some (x # _) \<Rightarrow> Some x)"

text \<open>\<open>String.prototype.toLowerCase\<close> on the letters A to Z.\<close>

definition lower_char :: "char \<Rightarrow> char" where
  "lower_char c =
     (if 65 \<le> (of_char c :: nat) \<and> (of_char c :: nat) \<le> 90 then char_of ((of_char c :: nat) + 32)
      else c)"

definition toLowerCase :: "string \<Rightarrow> string" where
  "toLowerCase s = map lower_char s"

text \<open>
  The pair \<open>(cvssScore, severity)\<close> after the \<open>if\<close>/\<open>else if\<close> on the two metric
  arrays; both stay \<open>null\<close> when neither array has an entry.
\<close>

definition extract_cvss :: "cve \<Rightarrow> rat option \<times> string option" where
  "extract_cvss c =
     (case first (case metrics c of None \<Rightarrow> None | Some m \<Rightarrow> cvssMetricV31 m) of
        Some m31 \<Rightarrow> (baseScore (cvssData m31), cvssData.baseSeverity (cvssData m31))
      | None \<Rightarrow>
          (case first (case metrics c of None \<Rightarrow> None | Some m \<Rightarrow> cvssMetricV2 m) of
             Some m2 \<Rightarrow> (baseScore (cvssData m2), cvssMetric.baseSeverity m2)
           | None \<Rightarrow> (None, None)))"

text \<open>\<open>xs.filter(Boolean)\<close> on values that are strings or absent.\<close>

definition filter_Boolean :: "string option list \<Rightarrow> string list" where
  "filter_Boolean xs = concat (map (\<lambda>x. case x of None \<Rightarrow> [] | Some s \<Rightarrow> if s = [] then [] else [s]) xs)"

text \<open>
  \<open>cve.weaknesses?.flatMap(w => w.description?.map(d => d.value)).filter(Boolean) || []\<close>.
  A weakness without \<open>description\<close> contributes the single value \<open>undefined\<close>.
\<close>

definition extract_cweIds :: "cve \<Rightarrow> string list" where
  "extract_cweIds c =
     (case weaknesses c of
        None \<Rightarrow> []
      | Some ws \<Rightarrow>
          filter_Boolean
            (concat (map (\<lambda>w. case weakness.description w of
                                 None \<Rightarrow> [None]
                               | Some ds \<Rightarrow> map lang_string.value ds) ws)))"

definition extract_referenceLinks :: "cve \<Rightarrow> reference list" where
  "extract_referenceLinks c =
     (case references c of
        None \<Rightarrow> []
      | Some rs \<Rightarrow> map (\<lambda>ref. \<lparr>url = url ref, source = source ref, tags = tags ref\<rparr>) rs)"

text \<open>\<open>cve.descriptions?.find(d => d.lang === 'en')?.value || ''\<close>.\<close>

definition extract_description :: "cve \<Rightarrow> string" where
  "extract_description c =
     or_str (case descriptions c of
               None \<Rightarrow> None
             | Some ds \<Rightarrow> (case find (\<lambda>d. lang d = ''en'') ds of
                             None \<Rightarrow> None
                           | Some d \<Rightarrow> lang_string.value d)) []"

definition cveData :: "string \<Rightarrow> int \<Rightarrow> cve \<Rightarrow> cve_entry" where
  "cveData cveId now c =
     \<lparr>cve_id = cveId,
      description = extract_description c,
      cvss_score = fst (extract_cvss c),
      severity = map_option toLowerCase (snd (extract_cvss c)),
      published_date = published c,
      modified_date = lastModified c,
      reference_links = extract_referenceLinks c,
      cwe_ids = extract_cweIds c,
      affected_products = (case configurations c of None \<Rightarrow> JArr [] | Some j \<Rightarrow> j),
      fetched_at = now\<rparr>"

subsection \<open>The fetch-cve handler\<close>

text \<open>
  What \<open>fetch\<close> does with the registry's URL: it throws (\<open>TransportError\<close> with the
  message of the error), or it gives a response with its \<open>ok\<close> flag and its body; the
  body is what \<open>nvdResponse.json()\<close> would give: \<open>Inl\<close> the message of the error it
  throws, \<open>Inr\<close> the parsed data.
\<close>

datatype upstream =
    TransportError string
  | UpstreamResponse bool "string + nvd_data"

text \<open>
  The handler's answer: \<open>Success e\<close> is the 200 response whose body is
  \<open>JSON.stringify(e)\<close>, \<open>Failure st msg\<close> the response with status \<open>st\<close> and body
  \<open>{ error: msg }\<close>.
\<close>

datatype cve_response = Success cve_entry | Failure nat string

text \<open>
  The outcome of one invocation: the answer, the cache afterwards, and the URLs requested
  from the registry, in order.
\<close>

record outcome =
  answer :: cve_response
  cache :: "string \<rightharpoonup> cve_entry"
  fetched :: "string list"

definition oneDayMs :: int where
  "oneDayMs = 24 * 60 * 60 * 1000"

definition nvd_url :: "string \<Rightarrow> string" where
  "nvd_url cveId = ''https://services.nvd.nist.gov/rest/json/cves/2.0?cveId='' @ cveId"

text \<open>
  \<open>nvdData.vulnerabilities?.[0]?.cve\<close>.
\<close>

definition first_cve :: "nvd_data \<Rightarrow> cve option" where
  "first_cve nvdData =
     (case first (nvd_data.vulnerabilities nvdData) of None \<Rightarrow> None | Some item \<Rightarrow> nvd_item.cve item)"

text \<open>
  \<open>cveId\<close> is the field of the parsed request body (\<open>None\<close> when it is missing), \<open>now\<close> the
  clock in milliseconds, \<open>store\<close> the \<open>cve_cache\<close> table keyed by \<open>cve_id\<close>, \<open>fetch\<close> the
  registry.  An error thrown inside the \<open>try\<close> block becomes the 500 response.
\<close>

definition fetch_cve ::
  "(string \<Rightarrow> upstream) \<Rightarrow> int \<Rightarrow> (string \<rightharpoonup> cve_entry) \<Rightarrow> string option \<Rightarrow> outcome" where
  "fetch_cve fetch now store cveId =
     (if \<not> truthy cveId then
        \<lparr>answer = Failure 400 ''CVE ID required'', cache = store, fetched = []\<rparr>
      else
        let cid = tmpl cveId; cached = store cid in
        if (case cached of None \<Rightarrow> False | Some e \<Rightarrow> now - fetched_at e < oneDayMs) then
          \<lparr>answer = Success (the cached), cache = store, fetched = []\<rparr>
        else
          (case fetch (nvd_url cid) of
             TransportError msg \<Rightarrow>
               \<lparr>answer = Failure 500 msg, cache = store, fetched = [nvd_url cid]\<rparr>
           | UpstreamResponse ok payload \<Rightarrow>
               if \<not> ok then
                 (case cached of
                    Some e \<Rightarrow> \<lparr>answer = Success e, cache = store, fetched = [nvd_url cid]\<rparr>
                  | None \<Rightarrow> \<lparr>answer = Failure 502 ''Failed to fetch from NVD'', cache = store,
                              fetched = [nvd_url cid]\<rparr>)
               else
                 (case payload of
                    Inl msg \<Rightarrow> \<lparr>answer = Failure 500 msg, cache = store,
                                 fetched = [nvd_url cid]\<rparr>
                  | Inr nvdData \<Rightarrow>
                      (case first_cve nvdData of
                         None \<Rightarrow> \<lparr>answer = Failure 404 ''CVE not found'', cache = store,
                                   fetched = [nvd_url cid]\<rparr>
                       | Some c \<Rightarrow>
                           \<lparr>answer = Success (cveData cid now c),
                            cache = store(cid \<mapsto> cveData cid now c),
                            fetched = [nvd_url cid]\<rparr>))))"

subsection \<open>Concrete inputs for fetch-cve\<close>

definition example_entry :: cve_entry where
  "example_entry =
     \<lparr>cve_id = ''CVE-2021-44228'', description = ''Log4j lookup injection'',
      cvss_score = Some 10, severity = Some ''critical'',
      published_date = Some ''2021-12-10T10:15:09.143'', modified_date = None,
      reference_links = [], cwe_ids = [''CWE-502''], affected_products = JArr [],
      fetched_at = 0\<rparr>"

text \<open>
  A registry record as the registry commonly sends it: the same weakness reported once by
  the registry (Primary) and once by the assigner (Secondary), a v3.1 and a v2 metric.
\<close>

definition example_cve :: cve where
  "example_cve =
     \<lparr>metrics = Some
        \<lparr>cvssMetricV31 = Some [\<lparr>cvssData = \<lparr>baseScore = Some (98 / 10), cvssData.baseSeverity = Some ''CRITICAL''\<rparr>,
                                  cvssMetric.baseSeverity = None\<rparr>],
         cvssMetricV2 = Some [\<lparr>cvssData = \<lparr>baseScore = Some (75 / 10), cvssData.baseSeverity = None\<rparr>,
                                 cvssMetric.baseSeverity = Some ''HIGH''\<rparr>]\<rparr>,
      weaknesses = Some
        [\<lparr>weakness.description = Some [\<lparr>lang = ''en'', value = Some ''CWE-787''\<rparr>]\<rparr>,
         \<lparr>weakness.description = Some [\<lparr>lang = ''en'', value = Some ''CWE-787''\<rparr>]\<rparr>],
      references = Some
        [\<lparr>url = Some ''https://example.org/advisory'', source = Some ''cve@mitre.org'',
          tags = Some [''Vendor Advisory'']\<rparr>],
      descriptions = Some
        [\<lparr>lang = ''es'', value = Some ''Escritura fuera de limites''\<rparr>,
         \<lparr>lang = ''en'', value = Some ''Out-of-bounds write''\<rparr>],
      published = Some ''2023-01-01T00:00:00.000'',
      lastModified = Some ''2023-02-01T00:00:00.000'',
      configurations = None\<rparr>"

definition example_registry :: "string \<Rightarrow> upstream" where
  "example_registry u =
     UpstreamResponse True
       (Inr \<lparr>nvd_data.vulnerabilities = Some [\<lparr>nvd_item.cve = Some example_cve\<rparr>]\<rparr>)"

definition empty_cache :: "string \<rightharpoonup> cve_entry" where
  "empty_cache = Map.empty"

section \<open>generate-report\<close>

subsection \<open>Rows read by the handler\<close>

text \<open>The two closed enumerations of the store.\<close>

datatype severity = Critical | High | Medium | Low | Info

datatype compliance_status = Pass | Fail | Warning

definition severity_text :: "severity \<Rightarrow> string" where
  "severity_text s =
     (case s of Critical \<Rightarrow> ''critical'' | High \<Rightarrow> ''high'' | Medium \<Rightarrow> ''medium''
      | Low \<Rightarrow> ''low'' | Info \<Rightarrow> ''info'')"

definition compliance_status_text :: "compliance_status \<Rightarrow> string" where
  "compliance_status_text s = (case s of Pass \<Rightarrow> ''pass'' | Fail \<Rightarrow> ''fail'' | Warning \<Rightarrow> ''warning'')"

record vulnerability =
  id :: string
  cve_id :: "string option"
  cwe_id :: "string option"
  severity :: severity
  cvss_score :: "rat option"
  title :: string
  description :: "string option"
  affected_component :: "string option"
  affected_function :: "string option"
  code_snippet :: "string option"
  line_number :: "rat option"
  detection_method :: "string option"
  status :: string
  remediation :: "string option"
  attack_vector :: "string option"
  impact :: "string option"

record compliance_result =
  framework :: string
  rule_id :: string
  rule_description :: "string option"
  status :: compliance_status
  details :: "string option"

record analysis_log =
  stage :: string
  log_level :: string
  message :: string
  created_at :: string

text \<open>
  The \<open>data\<close> (and, for the scan, \<open>error\<close>) fields of the five store queries of one
  invocation; \<open>None\<close> is \<open>null\<close>.
\<close>

record report_data =
  scan :: "scan option"
  scanError :: bool
  vulnerabilities :: "vulnerability list option"
  complianceResults :: "compliance_result list option"
  sbomComponents :: "component list option"
  analysisLogs :: "analysis_log list option"

subsection \<open>Double-precision arithmetic\<close>

text \<open>
  JavaScript numbers are IEEE 754 binary64 values.  The counts are array lengths, so they
  are integers below \<open>2^32\<close> and exact; the quotient and the product are rounded to the
  nearest double, ties to the even significand.  \<open>double x\<close> is that rounding for a
  rational \<open>x\<close>: with \<open>2^e \<le> |x| < 2^(e+1)\<close> the doubles near \<open>x\<close> are the multiples of
  \<open>2^(e-52)\<close>.  The exponent range is not modelled: the values of the handler lie between
  \<open>2^(-34)\<close> and \<open>100\<close>, far from overflow and from the subnormal numbers.
\<close>

definition pow2 :: "int \<Rightarrow> rat" where
  "pow2 e = (if 0 \<le> e then 2 ^ nat e else 1 / 2 ^ nat (- e))"

function binade :: "rat \<Rightarrow> int" where
  "binade x =
     (if x \<le> 0 then 0
      else if x < 1 then binade (2 * x) - 1
      else if 2 \<le> x then binade (x / 2) + 1
      else 0)"
  by pat_completeness auto

termination binade
proof (relation "measure (\<lambda>x. if x < 1 then nat \<lceil>1 / x\<rceil> else nat \<lfloor>x\<rfloor>)")
  show "wf (measure (\<lambda>x::rat. if x < 1 then nat \<lceil>1 / x\<rceil> else nat \<lfloor>x\<rfloor>))"
    by simp
next
  fix x :: rat
  assume a: "\<not> x \<le> 0" "x < 1"
  have y: "1 < 1 / x" using a by simp
  then have c2: "2 \<le> \<lceil>1 / x\<rceil>" by linarith
  show "(2 * x, x) \<in> measure (\<lambda>x. if x < 1 then nat \<lceil>1 / x\<rceil> else nat \<lfloor>x\<rfloor>)"
  proof (cases "2 * x < 1")
    case True
    then have "2 < 1 / x" using a by (simp add: field_simps)
    then have "1 / (2 * x) \<le> 1 / x - 1" by (simp add: field_simps)
    then have "\<lceil>1 / (2 * x)\<rceil> \<le> \<lceil>1 / x - 1\<rceil>" by (rule ceiling_mono)
    then have "\<lceil>1 / (2 * x)\<rceil> < \<lceil>1 / x\<rceil>" by simp
    then show ?thesis using True a c2 by simp
  next
    case False
    then have "\<lfloor>2 * x\<rfloor> = 1" using a by linarith
    then show ?thesis using False a c2 by simp
  qed
next
  fix x :: rat
  assume a: "\<not> x \<le> 0" "\<not> x < 1" "2 \<le> x"
  have "x / 2 \<le> x - 1" using a by simp
  then have "\<lfloor>x / 2\<rfloor> \<le> \<lfloor>x - 1\<rfloor>" by (rule floor_mono)
  then have "\<lfloor>x / 2\<rfloor> < \<lfloor>x\<rfloor>" by simp
  moreover have "1 \<le> \<lfloor>x\<rfloor>" using a by linarith
  moreover have "\<not> x / 2 < 1" using a by simp
  ultimately show "(x / 2, x) \<in> measure (\<lambda>x. if x < 1 then nat \<lceil>1 / x\<rceil> else nat \<lfloor>x\<rfloor>)"
    using a by simp
qed

declare binade.simps [simp del]

definition round_half_even :: "rat \<Rightarrow> int" where
  "round_half_even r =
     (let f = \<lfloor>r\<rfloor>; d = r - of_int f in
      if d < 1 / 2 then f
      else if 1 / 2 < d then f + 1
      else if even f then f
      else f + 1)"

definition double :: "rat \<Rightarrow> rat" where
  "double x =
     (if x = 0 then 0
      else
        let u = pow2 (binade \<bar>x\<bar> - 52) in
        sgn x * of_int (round_half_even (\<bar>x\<bar> / u)) * u)"

text \<open>\<open>a / b\<close> and \<open>a * b\<close> on doubles.\<close>

definition fdiv :: "rat \<Rightarrow> rat \<Rightarrow> rat" where
  "fdiv a b = double (a / b)"

definition fmul :: "rat \<Rightarrow> rat \<Rightarrow> rat" where
  "fmul a b = double (a * b)"

text \<open>
  \<open>Math.round\<close>: the integer nearest to the argument, the larger one when two are equally
  near.
\<close>

definition Math_round :: "rat \<Rightarrow> int" where
  "Math_round y = \<lfloor>y + 1 / 2\<rfloor>"

subsection \<open>Summary statistics\<close>

definition count_severity :: "severity \<Rightarrow> vulnerability list option \<Rightarrow> nat" where
  "count_severity s vs =
     (case vs of None \<Rightarrow> 0 | Some xs \<Rightarrow> length (filter (\<lambda>v. vulnerability.severity v = s) xs))"

definition count_status :: "compliance_status \<Rightarrow> compliance_result list option \<Rightarrow> nat" where
  "count_status s cs =
     (case cs of None \<Rightarrow> 0 | Some xs \<Rightarrow> length (filter (\<lambda>c. compliance_result.status c = s) xs))"

text \<open>
  \<open>pass + fail + warning > 0 ? Math.round((pass / (pass + fail + warning)) * 100) : 0\<close>
\<close>

definition compliance_score :: "nat \<Rightarrow> nat \<Rightarrow> nat \<Rightarrow> int" where
  "compliance_score pass fail warning =
     (if pass + fail + warning > 0
      then Math_round (fmul (fdiv (of_nat pass) (of_nat (pass + fail + warning))) 100)
      else 0)"

text \<open>
  The score in the words of the specification, in exact arithmetic:
  round(pass / (pass + fail + warning) \<times> 100), and 0 when the denominator is 0.
\<close>

definition spec_compliance_score :: "nat \<Rightarrow> nat \<Rightarrow> nat \<Rightarrow> int" where
  "spec_compliance_score pass fail warning =
     (if pass + fail + warning > 0
      then round ((of_nat pass / of_nat (pass + fail + warning)) * 100 :: rat)
      else 0)"

subsection \<open>The structured report\<close>

text \<open>
  \<open>numberToString\<close> is JavaScript's conversion of a number to text inside a template
  literal, \<open>now_iso\<close> and \<open>now_locale\<close> are \<open>new Date().toISOString()\<close> and
  \<open>new Date().toLocaleString()\<close>.
\<close>

definition vulnerability_json :: "vulnerability \<Rightarrow> json" where
  "vulnerability_json v = JObj
     [(''id'', JStr (vulnerability.id v)),
      (''cve_id'', jstr_opt (vulnerability.cve_id v)),
      (''cwe_id'', jstr_opt (cwe_id v)),
      (''severity'', JStr (severity_text (vulnerability.severity v))),
      (''cvss_score'', jnum_opt (vulnerability.cvss_score v)),
      (''title'', JStr (title v)),
      (''description'', jstr_opt (vulnerability.description v)),
      (''affected_component'', jstr_opt (affected_component v)),
      (''affected_function'', jstr_opt (affected_function v)),
      (''code_snippet'', jstr_opt (code_snippet v)),
      (''line_number'', jnum_opt (line_number v)),
      (''detection_method'', jstr_opt (detection_method v)),
      (''status'', JStr (vulnerability.status v)),
      (''remediation'', jstr_opt (remediation v)),
      (''attack_vector'', jstr_opt (attack_vector v)),
      (''impact'', jstr_opt (impact v))]"

definition compliance_json :: "compliance_result \<Rightarrow> json" where
  "compliance_json c = JObj
     [(''framework'', JStr (framework c)),
      (''rule_id'', JStr (rule_id c)),
      (''rule_description'', jstr_opt (rule_description c)),
      (''status'', JStr (compliance_status_text (compliance_result.status c))),
      (''details'', jstr_opt (details c))]"

definition sbom_json :: "component \<Rightarrow> json" where
  "sbom_json s = JObj
     [(''component_name'', JStr (component_name s)),
      (''version'', jstr_opt (component.version s)),
      (''license'', jstr_opt (component.license s)),
      (''source_file'', jstr_opt (source_file s)),
      (''vulnerabilities'',
         (case component.vulnerabilities s of None \<Rightarrow> JNull | Some xs \<Rightarrow> JArr (map JStr xs)))]"

definition timeline_json :: "analysis_log \<Rightarrow> json" where
  "timeline_json l = JObj
     [(''stage'', JStr (stage l)),
      (''level'', JStr (log_level l)),
      (''message'', JStr (message l)),
      (''timestamp'', JStr (analysis_log.created_at l))]"

definition length_or_0 :: "'a list option \<Rightarrow> nat" where
  "length_or_0 xs = (case xs of None \<Rightarrow> 0 | Some ys \<Rightarrow> length ys)"

definition report_score :: "report_data \<Rightarrow> int" where
  "report_score d =
     compliance_score (count_status Pass (complianceResults d))
       (count_status Fail (complianceResults d)) (count_status Warning (complianceResults d))"

definition report :: "string \<Rightarrow> scan \<Rightarrow> report_data \<Rightarrow> json" where
  "report now_iso sc d = JObj
     ([(''generated_at'', JStr now_iso),
       (''scan'', JObj
          [(''id'', JStr (scan.id sc)),
           (''ecu_name'', JStr (ecu_name sc)),
           (''ecu_type'', JStr (ecu_type sc)),
           (''version'', jstr_opt (scan.version sc)),
           (''manufacturer'', jstr_opt (manufacturer sc)),
           (''architecture'', jstr_opt (architecture sc)),
           (''file_name'', JStr (file_name sc)),
           (''file_hash'', jstr_opt (file_hash sc)),
           (''file_size'', jnum_opt (file_size sc)),
           (''status'', JStr (scan.status sc)),
           (''created_at'', JStr (scan.created_at sc)),
           (''completed_at'', jstr_opt (completed_at sc)),
           (''risk_score'', jnum_opt (risk_score sc)),
           (''executive_summary'', jstr_opt (executive_summary sc))]),
       (''summary'', JObj
          [(''total_vulnerabilities'', JNum (of_nat (length_or_0 (report_data.vulnerabilities d)))),
           (''vulnerability_breakdown'', JObj
              [(''critical'', JNum (of_nat (count_severity Critical (report_data.vulnerabilities d)))),
               (''high'', JNum (of_nat (count_severity High (report_data.vulnerabilities d)))),
               (''medium'', JNum (of_nat (count_severity Medium (report_data.vulnerabilities d)))),
               (''low'', JNum (of_nat (count_severity Low (report_data.vulnerabilities d)))),
               (''info'', JNum (of_nat (count_severity Info (report_data.vulnerabilities d))))]),
           (''compliance_breakdown'', JObj
              [(''pass'', JNum (of_nat (count_status Pass (complianceResults d)))),
               (''fail'', JNum (of_nat (count_status Fail (complianceResults d)))),
               (''warning'', JNum (of_nat (count_status Warning (complianceResults d))))]),
           (''compliance_score'', JNum (of_int (report_score d))),
           (''sbom_components_count'', JNum (of_nat (length_or_0 (sbomComponents d))))])]
      @ opt_key ''vulnerabilities'' (report_data.vulnerabilities d) vulnerability_json
      @ opt_key ''compliance_results'' (complianceResults d) compliance_json
      @ opt_key ''sbom'' (sbomComponents d) sbom_json
      @ opt_key ''analysis_timeline'' (analysisLogs d) timeline_json)"

subsection \<open>The markdown report\<close>

definition upper_char :: "char \<Rightarrow> char" where
  "upper_char c =
     (if 97 \<le> (of_char c :: nat) \<and> (of_char c :: nat) \<le> 122 then char_of ((of_char c :: nat) - 32)
      else c)"

definition toUpperCase :: "string \<Rightarrow> string" where
  "toUpperCase s = map upper_char s"

text \<open>\<open>n || 'N/A'\<close> inside a template literal, for a nullable number: 0 is falsy.\<close>

definition or_num :: "(rat \<Rightarrow> string) \<Rightarrow> rat option \<Rightarrow> string \<Rightarrow> string" where
  "or_num numberToString x d =
     (case x of None \<Rightarrow> d | Some n \<Rightarrow> if n = 0 then d else numberToString n)"

definition show_int :: "int \<Rightarrow> string" where
  "show_int i = (if i < 0 then ''-'' @ show_nat (nat (- i)) else show_nat (nat i))"

definition md_vulnerability :: "(rat \<Rightarrow> string) \<Rightarrow> nat \<Rightarrow> vulnerability \<Rightarrow> string" where
  "md_vulnerability numberToString i v =
     join nl
       [[],
        ''### '' @ show_nat (i + 1) @ ''. '' @ title v,
        [],
        ''- **Severity:** '' @ toUpperCase (severity_text (vulnerability.severity v)),
        ''- **CVE:** '' @ or_str (vulnerability.cve_id v) ''N/A'',
        ''- **CWE:** '' @ or_str (cwe_id v) ''N/A'',
        ''- **CVSS Score:** '' @ or_num numberToString (vulnerability.cvss_score v) ''N/A'',
        ''- **Component:** '' @ or_str (affected_component v) ''N/A'',
        ''- **Function:** '' @ or_str (affected_function v) ''N/A'',
        ''- **Detection Method:** '' @ or_str (detection_method v) ''N/A'',
        [],
        ''**Description:**'',
        or_str (vulnerability.description v) ''No description available.'',
        [],
        ''**Remediation:**'',
        or_str (remediation v) ''No remediation guidance available.'',
        [],
        (if truthy (code_snippet v)
         then ''**Code Snippet:**'' @ nl @ ''```c'' @ nl @ tmpl (code_snippet v) @ nl @ ''```''
         else []),
        []]"

text \<open>
  \<open>vulnerabilities?.map(...).join('\n') || 'No vulnerabilities found.'\<close>: the placeholder
  stands for a null list and for an empty one, whose join is the empty string.
\<close>

definition md_vulnerabilities :: "(rat \<Rightarrow> string) \<Rightarrow> vulnerability list option \<Rightarrow> string" where
  "md_vulnerabilities numberToString vs =
     (case vs of
        None \<Rightarrow> ''No vulnerabilities found.''
      | Some xs \<Rightarrow>
          if join nl (map_index (md_vulnerability numberToString) xs) = []
          then ''No vulnerabilities found.''
          else join nl (map_index (md_vulnerability numberToString) xs))"

definition md_sbom :: "component list option \<Rightarrow> string" where
  "md_sbom cs =
     (case cs of
        None \<Rightarrow> ''| No components detected | | |''
      | Some xs \<Rightarrow>
          if join nl (map (\<lambda>s. ''| '' @ component_name s @ '' | '' @ or_str (component.version s) ''N/A''
                                 @ '' | '' @ or_str (component.license s) ''N/A'' @ '' |'') xs) = []
          then ''| No components detected | | |''
          else join nl (map (\<lambda>s. ''| '' @ component_name s @ '' | '' @ or_str (component.version s) ''N/A''
                                 @ '' | '' @ or_str (component.license s) ''N/A'' @ '' |'') xs))"

definition textReport_lines :: "(rat \<Rightarrow> string) \<Rightarrow> string \<Rightarrow> scan \<Rightarrow> report_data \<Rightarrow> string list" where
  "textReport_lines numberToString now_locale sc d =
     [[],
      ''# ECU Vulnerability Scan Report'',
      [],
      ''Generated: '' @ now_locale,
      [],
      ''## Scan Information'',
      [],
      ''- **ECU Name:** '' @ ecu_name sc,
      ''- **ECU Type:** '' @ ecu_type sc,
      ''- **Version:** '' @ or_str (scan.version sc) ''N/A'',
      ''- **Manufacturer:** '' @ or_str (manufacturer sc) ''N/A'',
      ''- **Architecture:** '' @ tmpl (architecture sc),
      ''- **File:** '' @ file_name sc,
      ''- **Risk Score:** '' @ or_num numberToString (risk_score sc) ''N/A'' @ ''/100'',
      [],
      ''## Executive Summary'',
      [],
      or_str (executive_summary sc) ''No executive summary available.'',
      [],
      ''## Vulnerability Summary'',
      [],
      ''| Severity | Count |'',
      ''|----------|-------|'',
      ''| Critical | '' @ show_nat (count_severity Critical (report_data.vulnerabilities d)) @ '' |'',
      ''| High | '' @ show_nat (count_severity High (report_data.vulnerabilities d)) @ '' |'',
      ''| Medium | '' @ show_nat (count_severity Medium (report_data.vulnerabilities d)) @ '' |'',
      ''| Low | '' @ show_nat (count_severity Low (report_data.vulnerabilities d)) @ '' |'',
      ''| Info | '' @ show_nat (count_severity Info (report_data.vulnerabilities d)) @ '' |'',
      ''| **Total** | **'' @ show_nat (length_or_0 (report_data.vulnerabilities d)) @ ''** |'',
      [],
      ''## Compliance Summary'',
      [],
      ''| Status | Count |'',
      ''|--------|-------|'',
      ''| Pass | '' @ show_nat (count_status Pass (complianceResults d)) @ '' |'',
      ''| Fail | '' @ show_nat (count_status Fail (complianceResults d)) @ '' |'',
      ''| Warning | '' @ show_nat (count_status Warning (complianceResults d)) @ '' |'',
      ''| **Score** | **'' @ show_int (report_score d) @ ''%** |'',
      [],
      ''## Detailed Vulnerabilities'',
      [],
      md_vulnerabilities numberToString (report_data.vulnerabilities d),
      [],
      ''## SBOM (Software Bill of Materials)'',
      [],
      ''| Component | Version | License |'',
      ''|-----------|---------|---------|'',
      md_sbom (sbomComponents d),
      [],
      ''---'',
      ''*Report generated by JLR ECU Vulnerability Scanner*'',
      []]"

definition textReport :: "(rat \<Rightarrow> string) \<Rightarrow> string \<Rightarrow> scan \<Rightarrow> report_data \<Rightarrow> string" where
  "textReport numberToString now_locale sc d = join nl (textReport_lines numberToString now_locale sc d)"

subsection \<open>The generate-report handler\<close>

text \<open>
  \<open>scanId\<close> and \<open>format\<close> are the fields of the parsed request body, \<open>None\<close> when the
  key is missing; a missing \<open>format\<close> takes the default \<open>json\<close>.  The body of the JSON answer
  is \<open>JSON.stringify(report, null, 2)\<close>; \<open>disposition\<close> is the \<open>Content-Disposition\<close> header.
\<close>

definition generate_report ::
  "(rat \<Rightarrow> string) \<Rightarrow> string \<Rightarrow> string \<Rightarrow> report_data \<Rightarrow> string option \<Rightarrow> string option \<Rightarrow> response" where
  "generate_report numberToString now_iso now_locale d scanId format =
     (if \<not> truthy scanId then error_response 400 ''Scan ID required''
      else
        (case (if scanError d then None else report_data.scan d) of
           None \<Rightarrow> error_response 404 ''Scan not found''
         | Some sc \<Rightarrow>
             if (case format of None \<Rightarrow> ''json'' | Some f \<Rightarrow> f) = ''json'' then
               \<lparr>response.status = 200, content = JsonBody (report now_iso sc d),
                disposition = Some (''attachment; filename='' @ q (''scan-report-'' @ tmpl scanId @ ''.json''))\<rparr>
             else
               \<lparr>response.status = 200, content = TextBody (textReport numberToString now_locale sc d),
                disposition = Some (''attachment; filename='' @ q (''scan-report-'' @ tmpl scanId @ ''.md''))\<rparr>))"

subsection \<open>useGenerateReport\<close>

text \<open>
  The client hook.  \<open>invoke\<close> is \<open>supabase.functions.invoke('generate-report', { body })\<close>
  applied to the two fields of the body; an answer outside 2xx makes \<open>invoke\<close> report an
  error, which the hook throws (\<open>Inl\<close>).  A missing \<open>format\<close> takes the default \<open>json\<close>.
\<close>

text \<open>\<open>HookResult content format\<close> is the object \<open>{ content: data, format }\<close>.\<close>

datatype hook_result = HookResult body string

definition useGenerateReport ::
  "(string option \<Rightarrow> string option \<Rightarrow> response) \<Rightarrow> string \<Rightarrow> string option \<Rightarrow> response + hook_result" where
  "useGenerateReport invoke scanId format =
     (let fmt = (case format of None \<Rightarrow> ''json'' | Some f \<Rightarrow> f);
          r = invoke (Some scanId) (Some (if fmt = ''pdf'' then ''json'' else fmt))
      in if 200 \<le> response.status r \<and> response.status r < 300
         then Inr (HookResult (response.content r) fmt)
         else Inl r)"

subsection \<open>The order of the vulnerability query\<close>

text \<open>
  Modelled from the spec: the store's answer to
  \<open>from('vulnerabilities').select('*').eq('scan_id', scanId).order('severity', { ascending: true })\<close>.
  The order of the \<open>severity\<close> column is fixed by the schema of the store, which is not
  among the sources; the specification asks for a deterministic total order over
  critical, high, medium, low, info, mapped to the ordinals 0 to 4 ascending.
\<close>

definition severity_ordinal :: "severity \<Rightarrow> nat" where
  "severity_ordinal s = (case s of Critical \<Rightarrow> 0 | High \<Rightarrow> 1 | Medium \<Rightarrow> 2 | Low \<Rightarrow> 3 | Info \<Rightarrow> 4)"

definition select_vulnerabilities :: "(string \<times> vulnerability) list \<Rightarrow> string \<Rightarrow> vulnerability list option" where
  "select_vulnerabilities table scanId =
     Some (sort_key (\<lambda>v. severity_ordinal (vulnerability.severity v))
             (map snd (filter (\<lambda>row. fst row = scanId) table)))"

subsection \<open>Concrete inputs for generate-report\<close>

definition example_vulnerability :: "string \<Rightarrow> severity \<Rightarrow> string \<Rightarrow> vulnerability" where
  "example_vulnerability vid sev ttl =
     \<lparr>id = vid, cve_id = None, cwe_id = Some ''CWE-120'', severity = sev, cvss_score = None,
      title = ttl, description = None, affected_component = None, affected_function = None,
      code_snippet = None, line_number = None, detection_method = Some ''static'',
      status = ''new'', remediation = None, attack_vector = None, impact = None\<rparr>"

definition example_vulnerability_table :: "(string \<times> vulnerability) list" where
  "example_vulnerability_table =
     [(''7d0f4c1e-0000-4000-8000-000000000001'', example_vulnerability ''v1'' Low ''Weak checksum''),
      (''7d0f4c1e-0000-4000-8000-000000000001'', example_vulnerability ''v2'' High ''Stack overflow''),
      (''another-scan'', example_vulnerability ''v3'' Info ''Debug string''),
      (''7d0f4c1e-0000-4000-8000-000000000001'', example_vulnerability ''v4'' Critical ''Hard-coded key''),
      (''7d0f4c1e-0000-4000-8000-000000000001'', example_vulnerability ''v5'' High ''Format string'')]"

definition example_compliance :: "compliance_status \<Rightarrow> compliance_result" where
  "example_compliance st =
     \<lparr>framework = ''MISRA C'', rule_id = ''R1'', rule_description = None, status = st, details = None\<rparr>"

definition example_report_data :: report_data where
  "example_report_data =
     \<lparr>scan = Some example_scan, scanError = False,
      vulnerabilities =
        select_vulnerabilities example_vulnerability_table ''7d0f4c1e-0000-4000-8000-000000000001'',
      complianceResults = Some (replicate 23 (example_compliance Pass) @ replicate 17 (example_compliance Fail)),
      sbomComponents = Some example_components,
      analysisLogs = Some []\<rparr>"

text \<open>A number-to-text conversion that is right on the whole numbers.\<close>

definition example_numberToString :: "rat \<Rightarrow> string" where
  "example_numberToString r = show_int \<lfloor>r\<rfloor>"

section \<open>Properties\<close>

subsection \<open>Decimal indices and indexed maps\<close>

lemma digit_char_inverse: "d < 10 \<Longrightarrow> of_char (digit_char d) - 48 = d"
  by (simp add: digit_char_def)

lemma read_nat_snoc: "read_nat (s @ [c]) = 10 * read_nat s + (of_char c - 48)"
  by (simp add: read_nat_def)

lemma read_show_nat: "read_nat (show_nat n) = n"
proof (induction n rule: show_nat.induct)
  case (1 n)
  show ?case
  proof (cases "n < 10")
    case True
    then show ?thesis
      by (subst show_nat.simps) (simp add: read_nat_def digit_char_inverse)
  next
    case False
    then have "read_nat (show_nat (n div 10)) = n div 10"
      using "1" by simp
    moreover have "n mod 10 < 10" by simp
    ultimately show ?thesis using False
      by (subst show_nat.simps) (simp add: read_nat_snoc digit_char_inverse)
  qed
qed

lemma show_nat_inj: "show_nat m = show_nat n \<Longrightarrow> m = n"
  by (metis read_show_nat)

lemma length_map_index: "length (map_index f xs) = length xs"
  by (simp add: map_index_def)

lemma nth_map_index: "i < length xs \<Longrightarrow> map_index f xs ! i = f i (xs ! i)"
  by (simp add: map_index_def nth_enumerate_eq)

lemma map_index_Nil: "map_index f [] = []"
  by (simp add: map_index_def)

lemma in_flatMap_index:
  "i < length xs \<Longrightarrow> y \<in> set (f i (xs ! i)) \<Longrightarrow> y \<in> set (flatMap_index f xs)"
  unfolding flatMap_index_def
  by (metis (no_types, lifting) length_map_index nth_map_index nth_mem set_concat UN_I)

subsection \<open>CycloneDX\<close>

text \<open>
  C5.  \<open>generateCycloneDX\<close> returns the serialisation of the document \<open>cyclonedx_doc\<close>, and
  the handler wraps that string in its 200 envelope.  For a component list of length N the
  document has a \<open>components\<close> array of length N.  The entry at index i is typed \<open>library\<close>, has bom-ref \<open>component-i\<close>, the
  component's name, its version or the literal \<open>unknown\<close>, a license-id array that is empty
  when the license is absent, and the purl \<open>pkg:generic/name@version-or-unknown\<close>.  Every
  CVE id attached to component i has an entry in the top-level \<open>vulnerabilities\<close> array
  with that id, source NVD, and the single affects reference \<open>component-i\<close>.  A version
  or license is absent when it is null or the empty string (both are falsy for \<open>||\<close> and
  \<open>?:\<close>).
\<close>

theorem cyclonedx_components_and_vulnerabilities:
  fixes now :: string and sc :: scan and comps :: "component list"
  defines "doc \<equiv> cyclonedx_doc now sc comps"
  shows "generateCycloneDX stringify now sc comps = stringify doc \<and>
         export_sbom stringify now (Some sc) (Some comps) ''cyclonedx'' =
           json_response 200
             (envelope (stringify doc) (ecu_name sc @ ''-sbom-cyclonedx.json'') ''application/json'') \<and>
         (\<exists>cs vs.
           field ''components'' doc = Some (JArr cs) \<and>
           field ''vulnerabilities'' doc = Some (JArr vs) \<and>
           length cs = length comps \<and>
           (\<forall>i < length comps.
              field ''type'' (cs ! i) = Some (JStr ''library'') \<and>
              field ''bom-ref'' (cs ! i) = Some (JStr (''component-'' @ show_nat i)) \<and>
              field ''name'' (cs ! i) = Some (JStr (component_name (comps ! i))) \<and>
              field ''version'' (cs ! i) =
                Some (JStr (case component.version (comps ! i) of
                              None \<Rightarrow> ''unknown''
                            | Some v \<Rightarrow> if v = [] then ''unknown'' else v)) \<and>
              field ''licenses'' (cs ! i) =
                Some (JArr (case component.license (comps ! i) of
                              None \<Rightarrow> []
                            | Some l \<Rightarrow> if l = [] then []
                                       else [JObj [(''license'', JObj [(''id'', JStr l)])]])) \<and>
              field ''purl'' (cs ! i) =
                Some (JStr (''pkg:generic/'' @ component_name (comps ! i) @ ''@'' @
                            (case component.version (comps ! i) of
                               None \<Rightarrow> ''unknown''
                             | Some v \<Rightarrow> if v = [] then ''unknown'' else v))) \<and>
              (\<forall>cve \<in> set (case component.vulnerabilities (comps ! i) of None \<Rightarrow> [] | Some xs \<Rightarrow> xs).
                 \<exists>v \<in> set vs.
                   field ''id'' v = Some (JStr cve) \<and>
                   (\<exists>src. field ''source'' v = Some src \<and> field ''name'' src = Some (JStr ''NVD'')) \<and>
                   field ''affects'' v = Some (JArr [JObj [(''ref'', JStr (''component-'' @ show_nat i))]]))))"
proof -
  have g: "generateCycloneDX stringify now sc comps = stringify doc"
    by (simp add: generateCycloneDX_def doc_def)
  have h: "export_sbom stringify now (Some sc) (Some comps) ''cyclonedx'' =
           json_response 200
             (envelope (stringify doc) (ecu_name sc @ ''-sbom-cyclonedx.json'') ''application/json'')"
    by (simp add: export_sbom_def g)
  let ?cs = "map_index cyclonedx_component comps"
  let ?vs = "flatMap_index (\<lambda>compIndex cmp.
               map (cyclonedx_vulnerability compIndex) (or_list (component.vulnerabilities cmp))) comps"
  have c: "field ''components'' doc = Some (JArr ?cs)"
    by (simp add: doc_def cyclonedx_doc_def field_def)
  have v: "field ''vulnerabilities'' doc = Some (JArr ?vs)"
    by (simp add: doc_def cyclonedx_doc_def field_def)
  have len: "length ?cs = length comps"
    by (simp add: length_map_index)
  have each: "field ''type'' (?cs ! i) = Some (JStr ''library'') \<and>
              field ''bom-ref'' (?cs ! i) = Some (JStr (''component-'' @ show_nat i)) \<and>
              field ''name'' (?cs ! i) = Some (JStr (component_name (comps ! i))) \<and>
              field ''version'' (?cs ! i) =
                Some (JStr (case component.version (comps ! i) of
                              None \<Rightarrow> ''unknown''
                            | Some v \<Rightarrow> if v = [] then ''unknown'' else v)) \<and>
              field ''licenses'' (?cs ! i) =
                Some (JArr (case component.license (comps ! i) of
                              None \<Rightarrow> []
                            | Some l \<Rightarrow> if l = [] then []
                                       else [JObj [(''license'', JObj [(''id'', JStr l)])]])) \<and>
              field ''purl'' (?cs ! i) =
                Some (JStr (''pkg:generic/'' @ component_name (comps ! i) @ ''@'' @
                            (case component.version (comps ! i) of
                               None \<Rightarrow> ''unknown''
                             | Some v \<Rightarrow> if v = [] then ''unknown'' else v)))"
    if "i < length comps" for i
    using that
    by (simp add: nth_map_index cyclonedx_component_def field_def or_str_def truthy_def
        jstr_opt_def split: option.splits)
  have vul: "\<exists>v \<in> set ?vs.
                   field ''id'' v = Some (JStr cve) \<and>
                   (\<exists>src. field ''source'' v = Some src \<and> field ''name'' src = Some (JStr ''NVD'')) \<and>
                   field ''affects'' v = Some (JArr [JObj [(''ref'', JStr (''component-'' @ show_nat i))]])"
    if "i < length comps"
      and "cve \<in> set (case component.vulnerabilities (comps ! i) of None \<Rightarrow> [] | Some xs \<Rightarrow> xs)" for i cve
  proof -
    have "cve \<in> set (or_list (component.vulnerabilities (comps ! i)))"
      using that(2) by (simp add: or_list_def)
    then have "cyclonedx_vulnerability i cve \<in> set ?vs"
      using that(1) by (intro in_flatMap_index) auto
    moreover have "field ''id'' (cyclonedx_vulnerability i cve) = Some (JStr cve)"
      by (simp add: cyclonedx_vulnerability_def field_def)
    moreover have "\<exists>src. field ''source'' (cyclonedx_vulnerability i cve) = Some src
                     \<and> field ''name'' src = Some (JStr ''NVD'')"
      by (simp add: cyclonedx_vulnerability_def field_def)
    moreover have "field ''affects'' (cyclonedx_vulnerability i cve)
                     = Some (JArr [JObj [(''ref'', JStr (''component-'' @ show_nat i))]])"
      by (simp add: cyclonedx_vulnerability_def field_def)
    ultimately show ?thesis by blast
  qed
  have "\<exists>cs vs.
           field ''components'' doc = Some (JArr cs) \<and>
           field ''vulnerabilities'' doc = Some (JArr vs) \<and>
           length cs = length comps \<and>
           (\<forall>i < length comps.
              field ''type'' (cs ! i) = Some (JStr ''library'') \<and>
              field ''bom-ref'' (cs ! i) = Some (JStr (''component-'' @ show_nat i)) \<and>
              field ''name'' (cs ! i) = Some (JStr (component_name (comps ! i))) \<and>
              field ''version'' (cs ! i) =
                Some (JStr (case component.version (comps ! i) of
                              None \<Rightarrow> ''unknown''
                            | Some v \<Rightarrow> if v = [] then ''unknown'' else v)) \<and>
              field ''licenses'' (cs ! i) =
                Some (JArr (case component.license (comps ! i) of
                              None \<Rightarrow> []
                            | Some l \<Rightarrow> if l = [] then []
                                       else [JObj [(''license'', JObj [(''id'', JStr l)])]])) \<and>
              field ''purl'' (cs ! i) =
                Some (JStr (''pkg:generic/'' @ component_name (comps ! i) @ ''@'' @
                            (case component.version (comps ! i) of
                               None \<Rightarrow> ''unknown''
                             | Some v \<Rightarrow> if v = [] then ''unknown'' else v))) \<and>
              (\<forall>cve \<in> set (case component.vulnerabilities (comps ! i) of None \<Rightarrow> [] | Some xs \<Rightarrow> xs).
                 \<exists>v \<in> set vs.
                   field ''id'' v = Some (JStr cve) \<and>
                   (\<exists>src. field ''source'' v = Some src \<and> field ''name'' src = Some (JStr ''NVD'')) \<and>
                   field ''affects'' v = Some (JArr [JObj [(''ref'', JStr (''component-'' @ show_nat i))]])))"
    using c v len each vul by blast
  with g h show ?thesis
    by (intro conjI)
qed

theorem cyclonedx_components_and_vulnerabilities_witness:
  "(\<forall>stringify.
      generateCycloneDX stringify ''2024-01-01T00:00:00.000Z'' example_scan example_components =
        stringify (cyclonedx_doc ''2024-01-01T00:00:00.000Z'' example_scan example_components)) \<and>
   (\<forall>stringify.
      export_sbom stringify ''2024-01-01T00:00:00.000Z'' (Some example_scan) (Some example_components)
          ''cyclonedx'' =
        json_response 200
          (envelope
             (stringify (cyclonedx_doc ''2024-01-01T00:00:00.000Z'' example_scan example_components))
             ''BCM-sbom-cyclonedx.json'' ''application/json'')) \<and>
   (\<exists>cs vs.
     field ''components'' (cyclonedx_doc ''2024-01-01T00:00:00.000Z'' example_scan example_components)
       = Some (JArr cs) \<and>
     field ''vulnerabilities'' (cyclonedx_doc ''2024-01-01T00:00:00.000Z'' example_scan example_components)
       = Some (JArr vs) \<and>
     length cs = 2 \<and>
     field ''bom-ref'' (cs ! 1) = Some (JStr ''component-1'') \<and>
     field ''version'' (cs ! 1) = Some (JStr ''unknown'') \<and>
     field ''licenses'' (cs ! 1) = Some (JArr []) \<and>
     (\<exists>v \<in> set vs. field ''id'' v = Some (JStr ''CVE-2020-0002'') \<and>
        field ''affects'' v = Some (JArr [JObj [(''ref'', JStr ''component-1'')]])))"
proof -
  note t = cyclonedx_components_and_vulnerabilities
      [where now = "''2024-01-01T00:00:00.000Z''" and sc = example_scan and comps = example_components]
  have g: "generateCycloneDX stringify ''2024-01-01T00:00:00.000Z'' example_scan example_components =
        stringify (cyclonedx_doc ''2024-01-01T00:00:00.000Z'' example_scan example_components)"
    for stringify
    using t [of stringify] by (rule conjunct1)
  have h: "export_sbom stringify ''2024-01-01T00:00:00.000Z'' (Some example_scan) (Some example_components)
          ''cyclonedx'' =
        json_response 200
          (envelope
             (stringify (cyclonedx_doc ''2024-01-01T00:00:00.000Z'' example_scan example_components))
             ''BCM-sbom-cyclonedx.json'' ''application/json'')"
    for stringify
    using t [of stringify, THEN conjunct2, THEN conjunct1] by (simp add: example_scan_def)
  obtain cs vs where
    c: "field ''components'' (cyclonedx_doc ''2024-01-01T00:00:00.000Z'' example_scan example_components)
          = Some (JArr cs)"
    and v: "field ''vulnerabilities'' (cyclonedx_doc ''2024-01-01T00:00:00.000Z'' example_scan example_components)
          = Some (JArr vs)"
    and len: "length cs = length example_components"
    and each: "\<forall>i < length example_components.
              field ''type'' (cs ! i) = Some (JStr ''library'') \<and>
              field ''bom-ref'' (cs ! i) = Some (JStr (''component-'' @ show_nat i)) \<and>
              field ''name'' (cs ! i) = Some (JStr (component_name (example_components ! i))) \<and>
              field ''version'' (cs ! i) =
                Some (JStr (case component.version (example_components ! i) of
                              None \<Rightarrow> ''unknown''
                            | Some v \<Rightarrow> if v = [] then ''unknown'' else v)) \<and>
              field ''licenses'' (cs ! i) =
                Some (JArr (case component.license (example_components ! i) of
                              None \<Rightarrow> []
                            | Some l \<Rightarrow> if l = [] then []
                                       else [JObj [(''license'', JObj [(''id'', JStr l)])]])) \<and>
              field ''purl'' (cs ! i) =
                Some (JStr (''pkg:generic/'' @ component_name (example_components ! i) @ ''@'' @
                            (case component.version (example_components ! i) of
                               None \<Rightarrow> ''unknown''
                             | Some v \<Rightarrow> if v = [] then ''unknown'' else v))) \<and>
              (\<forall>cve \<in> set (case component.vulnerabilities (example_components ! i) of None \<Rightarrow> [] | Some xs \<Rightarrow> xs).
                 \<exists>v \<in> set vs.
                   field ''id'' v = Some (JStr cve) \<and>
                   (\<exists>src. field ''source'' v = Some src \<and> field ''name'' src = Some (JStr ''NVD'')) \<and>
                   field ''affects'' v = Some (JArr [JObj [(''ref'', JStr (''component-'' @ show_nat i))]]))"
    using t [of "\<lambda>j. []", THEN conjunct2, THEN conjunct2]
    by blast
  have one: "(1::nat) < length example_components"
    by (simp add: example_components_def)
  have s1: "show_nat 1 = ''1''"
    by code_simp
  have mem: "''CVE-2020-0002'' \<in> set (case component.vulnerabilities (example_components ! 1) of
                                         None \<Rightarrow> [] | Some xs \<Rightarrow> xs)"
    by (simp add: example_components_def)
  from each one have e1:
    "field ''bom-ref'' (cs ! 1) = Some (JStr (''component-'' @ show_nat 1))"
    "field ''version'' (cs ! 1) =
       Some (JStr (case component.version (example_components ! 1) of
                     None \<Rightarrow> ''unknown'' | Some v \<Rightarrow> if v = [] then ''unknown'' else v))"
    "field ''licenses'' (cs ! 1) =
       Some (JArr (case component.license (example_components ! 1) of
                     None \<Rightarrow> []
                   | Some l \<Rightarrow> if l = [] then []
                              else [JObj [(''license'', JObj [(''id'', JStr l)])]]))"
    "\<forall>cve \<in> set (case component.vulnerabilities (example_components ! 1) of None \<Rightarrow> [] | Some xs \<Rightarrow> xs).
        \<exists>v \<in> set vs.
          field ''id'' v = Some (JStr cve) \<and>
          (\<exists>src. field ''source'' v = Some src \<and> field ''name'' src = Some (JStr ''NVD'')) \<and>
          field ''affects'' v = Some (JArr [JObj [(''ref'', JStr (''component-'' @ show_nat 1))]])"
    by blast+
  from e1(4) mem have "\<exists>v \<in> set vs. field ''id'' v = Some (JStr ''CVE-2020-0002'') \<and>
        field ''affects'' v = Some (JArr [JObj [(''ref'', JStr (''component-'' @ show_nat 1))]])"
    by blast
  moreover have "field ''version'' (cs ! 1) = Some (JStr ''unknown'')"
    using e1(2) by (simp add: example_components_def)
  moreover have "field ''licenses'' (cs ! 1) = Some (JArr [])"
    using e1(3) by (simp add: example_components_def)
  moreover have "length cs = 2"
    using len by (simp add: example_components_def)
  ultimately have ex: "\<exists>cs vs.
     field ''components'' (cyclonedx_doc ''2024-01-01T00:00:00.000Z'' example_scan example_components)
       = Some (JArr cs) \<and>
     field ''vulnerabilities'' (cyclonedx_doc ''2024-01-01T00:00:00.000Z'' example_scan example_components)
       = Some (JArr vs) \<and>
     length cs = 2 \<and>
     field ''bom-ref'' (cs ! 1) = Some (JStr ''component-1'') \<and>
     field ''version'' (cs ! 1) = Some (JStr ''unknown'') \<and>
     field ''licenses'' (cs ! 1) = Some (JArr []) \<and>
     (\<exists>v \<in> set vs. field ''id'' v = Some (JStr ''CVE-2020-0002'') \<and>
        field ''affects'' v = Some (JArr [JObj [(''ref'', JStr ''component-1'')]]))"
    using c v e1(1) unfolding s1 by auto
  show ?thesis
    by (intro conjI allI g h ex)
qed

subsection \<open>SPDX\<close>

lemma spdx_package_id: "field ''SPDXID'' (spdx_package i c) = Some (JStr (''SPDXRef-Package-'' @ show_nat i))"
  by (simp add: spdx_package_def field_def)

lemma spdx_root_id: "field ''SPDXID'' (spdx_root_package sc) = Some (JStr ''SPDXRef-RootPackage'')"
  by (simp add: spdx_root_package_def field_def)

lemma spdx_relationship_related:
  "field ''relatedSpdxElement'' (spdx_relationship i c) = Some (JStr (''SPDXRef-Package-'' @ show_nat i))"
  by (simp add: spdx_relationship_def field_def)

lemma spdx_packages_id:
  "k < Suc (length comps) \<Longrightarrow>
   field ''SPDXID'' ((spdx_root_package sc # map_index spdx_package comps) ! k) =
     Some (JStr (case k of 0 \<Rightarrow> ''SPDXRef-RootPackage'' | Suc i \<Rightarrow> ''SPDXRef-Package-'' @ show_nat i))"
  by (cases k) (simp_all add: spdx_root_id nth_map_index spdx_package_id)

lemma spdx_related_unique:
  assumes "i < length comps"
  shows "\<exists>!k. k < Suc (length comps) \<and>
           field ''SPDXID'' ((spdx_root_package sc # map_index spdx_package comps) ! k) =
           Some (JStr (''SPDXRef-Package-'' @ show_nat i))"
proof (rule ex1I [of _ "Suc i"])
  show "Suc i < Suc (length comps) \<and>
        field ''SPDXID'' ((spdx_root_package sc # map_index spdx_package comps) ! Suc i) =
        Some (JStr (''SPDXRef-Package-'' @ show_nat i))"
    using assms by (simp add: nth_map_index spdx_package_id)
next
  fix k
  assume k: "k < Suc (length comps) \<and>
        field ''SPDXID'' ((spdx_root_package sc # map_index spdx_package comps) ! k) =
        Some (JStr (''SPDXRef-Package-'' @ show_nat i))"
  show "k = Suc i"
  proof (cases k)
    case 0
    with k show ?thesis by (simp add: spdx_root_id)
  next
    case (Suc j)
    with k have jl: "j < length comps" by simp
    from k Suc have e: "field ''SPDXID'' (map_index spdx_package comps ! j) =
        Some (JStr (''SPDXRef-Package-'' @ show_nat i))"
      by simp
    have "map_index spdx_package comps ! j = spdx_package j (comps ! j)"
      using jl by (rule nth_map_index)
    with e have "Some (JStr (''SPDXRef-Package-'' @ show_nat j)) =
        Some (JStr (''SPDXRef-Package-'' @ show_nat i))"
      by (simp only: spdx_package_id)
    then have "show_nat j = show_nat i"
      by simp
    then show ?thesis using Suc by (simp add: show_nat_inj)
  qed
qed

text \<open>
  C6.  \<open>generateSPDX\<close> returns the serialisation of the document \<open>spdx_doc\<close>, and the
  handler wraps that string in its 200 envelope.  For a component list of length N the
  document has N+1 packages: the root
  package \<open>SPDXRef-RootPackage\<close> first, then \<open>SPDXRef-Package-i\<close> for i = 0..N-1.  Each
  component package has the component's license, or \<open>NOASSERTION\<close> when it is absent, as
  concluded and as declared license, and one SECURITY reference of type \<open>cpe23Type\<close> per
  associated CVE id.  The \<open>relationships\<close> array has N entries; entry i says that
  \<open>SPDXRef-RootPackage\<close> CONTAINS \<open>SPDXRef-Package-i\<close>, and the related element of every
  entry is the id of exactly one emitted package.
\<close>

theorem spdx_packages_and_relationships:
  fixes now :: string and sc :: scan and comps :: "component list"
  defines "doc \<equiv> spdx_doc now sc comps"
  shows "generateSPDX stringify now sc comps = stringify doc \<and>
         export_sbom stringify now (Some sc) (Some comps) ''spdx'' =
           json_response 200
             (envelope (stringify doc) (ecu_name sc @ ''-sbom-spdx.json'') ''application/json'') \<and>
         (\<exists>ps rs.
           field ''packages'' doc = Some (JArr ps) \<and>
           field ''relationships'' doc = Some (JArr rs) \<and>
           length ps = length comps + 1 \<and>
           field ''SPDXID'' (ps ! 0) = Some (JStr ''SPDXRef-RootPackage'') \<and>
           (\<forall>i < length comps.
              field ''SPDXID'' (ps ! Suc i) = Some (JStr (''SPDXRef-Package-'' @ show_nat i)) \<and>
              field ''licenseConcluded'' (ps ! Suc i) =
                Some (JStr (case component.license (comps ! i) of
                              None \<Rightarrow> ''NOASSERTION''
                            | Some l \<Rightarrow> if l = [] then ''NOASSERTION'' else l)) \<and>
              field ''licenseDeclared'' (ps ! Suc i) =
                Some (JStr (case component.license (comps ! i) of
                              None \<Rightarrow> ''NOASSERTION''
                            | Some l \<Rightarrow> if l = [] then ''NOASSERTION'' else l)) \<and>
              field ''externalRefs'' (ps ! Suc i) =
                Some (JArr (map (\<lambda>cve. JObj [(''referenceCategory'', JStr ''SECURITY''),
                                              (''referenceType'', JStr ''cpe23Type''),
                                              (''referenceLocator'', JStr cve)])
                              (case component.vulnerabilities (comps ! i) of None \<Rightarrow> [] | Some xs \<Rightarrow> xs)))) \<and>
           length rs = length comps \<and>
           (\<forall>i < length comps.
              rs ! i = JObj [(''spdxElementId'', JStr ''SPDXRef-RootPackage''),
                             (''relationshipType'', JStr ''CONTAINS''),
                             (''relatedSpdxElement'', JStr (''SPDXRef-Package-'' @ show_nat i))]) \<and>
           (\<forall>r \<in> set rs.
              \<exists>!k. k < length ps \<and> field ''SPDXID'' (ps ! k) = field ''relatedSpdxElement'' r))"
proof -
  have g: "generateSPDX stringify now sc comps = stringify doc"
    by (simp add: generateSPDX_def doc_def)
  have h: "export_sbom stringify now (Some sc) (Some comps) ''spdx'' =
           json_response 200
             (envelope (stringify doc) (ecu_name sc @ ''-sbom-spdx.json'') ''application/json'')"
    by (simp add: export_sbom_def g)
  let ?ps = "spdx_root_package sc # map_index spdx_package comps"
  let ?rs = "map_index spdx_relationship comps"
  have p: "field ''packages'' doc = Some (JArr ?ps)"
    by (simp add: doc_def spdx_doc_def field_def)
  have r: "field ''relationships'' doc = Some (JArr ?rs)"
    by (simp add: doc_def spdx_doc_def field_def)
  have lp: "length ?ps = length comps + 1"
    by (simp add: length_map_index)
  have root: "field ''SPDXID'' (?ps ! 0) = Some (JStr ''SPDXRef-RootPackage'')"
    by (simp add: spdx_root_id)
  have pk: "field ''SPDXID'' (?ps ! Suc i) = Some (JStr (''SPDXRef-Package-'' @ show_nat i)) \<and>
              field ''licenseConcluded'' (?ps ! Suc i) =
                Some (JStr (case component.license (comps ! i) of
                              None \<Rightarrow> ''NOASSERTION''
                            | Some l \<Rightarrow> if l = [] then ''NOASSERTION'' else l)) \<and>
              field ''licenseDeclared'' (?ps ! Suc i) =
                Some (JStr (case component.license (comps ! i) of
                              None \<Rightarrow> ''NOASSERTION''
                            | Some l \<Rightarrow> if l = [] then ''NOASSERTION'' else l)) \<and>
              field ''externalRefs'' (?ps ! Suc i) =
                Some (JArr (map (\<lambda>cve. JObj [(''referenceCategory'', JStr ''SECURITY''),
                                              (''referenceType'', JStr ''cpe23Type''),
                                              (''referenceLocator'', JStr cve)])
                              (case component.vulnerabilities (comps ! i) of None \<Rightarrow> [] | Some xs \<Rightarrow> xs)))"
    if "i < length comps" for i
    using that
    by (simp add: nth_map_index spdx_package_def field_def or_str_def or_list_def
        spdx_external_ref_def split: option.splits)
  have lr: "length ?rs = length comps"
    by (simp add: length_map_index)
  have rel: "?rs ! i = JObj [(''spdxElementId'', JStr ''SPDXRef-RootPackage''),
                             (''relationshipType'', JStr ''CONTAINS''),
                             (''relatedSpdxElement'', JStr (''SPDXRef-Package-'' @ show_nat i))]"
    if "i < length comps" for i
    using that by (simp add: nth_map_index spdx_relationship_def)
  have once: "\<exists>!k. k < length ?ps \<and> field ''SPDXID'' (?ps ! k) = field ''relatedSpdxElement'' r"
    if "r \<in> set ?rs" for r
  proof -
    from that obtain i where i: "i < length comps" and ri: "r = ?rs ! i"
      by (metis in_set_conv_nth length_map_index)
    have "field ''relatedSpdxElement'' r = Some (JStr (''SPDXRef-Package-'' @ show_nat i))"
      using i ri by (simp add: nth_map_index spdx_relationship_related)
    then show ?thesis
      using spdx_related_unique [OF i, of sc] by (simp add: length_map_index)
  qed
  have "\<exists>ps rs.
           field ''packages'' doc = Some (JArr ps) \<and>
           field ''relationships'' doc = Some (JArr rs) \<and>
           length ps = length comps + 1 \<and>
           field ''SPDXID'' (ps ! 0) = Some (JStr ''SPDXRef-RootPackage'') \<and>
           (\<forall>i < length comps.
              field ''SPDXID'' (ps ! Suc i) = Some (JStr (''SPDXRef-Package-'' @ show_nat i)) \<and>
              field ''licenseConcluded'' (ps ! Suc i) =
                Some (JStr (case component.license (comps ! i) of
                              None \<Rightarrow> ''NOASSERTION''
                            | Some l \<Rightarrow> if l = [] then ''NOASSERTION'' else l)) \<and>
              field ''licenseDeclared'' (ps ! Suc i) =
                Some (JStr (case component.license (comps ! i) of
                              None \<Rightarrow> ''NOASSERTION''
                            | Some l \<Rightarrow> if l = [] then ''NOASSERTION'' else l)) \<and>
              field ''externalRefs'' (ps ! Suc i) =
                Some (JArr (map (\<lambda>cve. JObj [(''referenceCategory'', JStr ''SECURITY''),
                                              (''referenceType'', JStr ''cpe23Type''),
                                              (''referenceLocator'', JStr cve)])
                              (case component.vulnerabilities (comps ! i) of None \<Rightarrow> [] | Some xs \<Rightarrow> xs)))) \<and>
           length rs = length comps \<and>
           (\<forall>i < length comps.
              rs ! i = JObj [(''spdxElementId'', JStr ''SPDXRef-RootPackage''),
                             (''relationshipType'', JStr ''CONTAINS''),
                             (''relatedSpdxElement'', JStr (''SPDXRef-Package-'' @ show_nat i))]) \<and>
           (\<forall>r \<in> set rs.
              \<exists>!k. k < length ps \<and> field ''SPDXID'' (ps ! k) = field ''relatedSpdxElement'' r)"
    using p r lp root pk lr rel once by blast
  with g h show ?thesis
    by (intro conjI)
qed

theorem spdx_packages_and_relationships_witness:
  "(\<forall>stringify.
      generateSPDX stringify ''2024-01-01T00:00:00.000Z'' example_scan example_components =
        stringify (spdx_doc ''2024-01-01T00:00:00.000Z'' example_scan example_components)) \<and>
   (\<forall>stringify.
      export_sbom stringify ''2024-01-01T00:00:00.000Z'' (Some example_scan) (Some example_components)
          ''spdx'' =
        json_response 200
          (envelope
             (stringify (spdx_doc ''2024-01-01T00:00:00.000Z'' example_scan example_components))
             ''BCM-sbom-spdx.json'' ''application/json'')) \<and>
   (\<exists>ps rs.
     field ''packages'' (spdx_doc ''2024-01-01T00:00:00.000Z'' example_scan example_components)
       = Some (JArr ps) \<and>
     field ''relationships'' (spdx_doc ''2024-01-01T00:00:00.000Z'' example_scan example_components)
       = Some (JArr rs) \<and>
     length ps = 3 \<and> length rs = 2 \<and>
     field ''SPDXID'' (ps ! 2) = Some (JStr ''SPDXRef-Package-1'') \<and>
     field ''licenseConcluded'' (ps ! 2) = Some (JStr ''NOASSERTION'') \<and>
     rs ! 1 = JObj [(''spdxElementId'', JStr ''SPDXRef-RootPackage''),
                    (''relationshipType'', JStr ''CONTAINS''),
                    (''relatedSpdxElement'', JStr ''SPDXRef-Package-1'')] \<and>
     (\<exists>!k. k < length ps \<and> field ''SPDXID'' (ps ! k) = field ''relatedSpdxElement'' (rs ! 1)))"
proof -
  let ?doc = "spdx_doc ''2024-01-01T00:00:00.000Z'' example_scan example_components"
  let ?n = "length example_components"
  note t = spdx_packages_and_relationships
      [where now = "''2024-01-01T00:00:00.000Z''" and sc = example_scan and comps = example_components]
  have g: "generateSPDX stringify ''2024-01-01T00:00:00.000Z'' example_scan example_components =
        stringify ?doc"
    for stringify
    using t [of stringify] by (rule conjunct1)
  have h: "export_sbom stringify ''2024-01-01T00:00:00.000Z'' (Some example_scan) (Some example_components)
          ''spdx'' =
        json_response 200 (envelope (stringify ?doc) ''BCM-sbom-spdx.json'' ''application/json'')"
    for stringify
    using t [of stringify, THEN conjunct2, THEN conjunct1] by (simp add: example_scan_def)
  obtain ps rs where
    p: "field ''packages'' ?doc = Some (JArr ps)"
    and r: "field ''relationships'' ?doc = Some (JArr rs)"
    and lp: "length ps = ?n + 1"
    and pk: "\<forall>i < ?n.
              field ''SPDXID'' (ps ! Suc i) = Some (JStr (''SPDXRef-Package-'' @ show_nat i)) \<and>
              field ''licenseConcluded'' (ps ! Suc i) =
                Some (JStr (case component.license (example_components ! i) of
                              None \<Rightarrow> ''NOASSERTION''
                            | Some l \<Rightarrow> if l = [] then ''NOASSERTION'' else l)) \<and>
              field ''licenseDeclared'' (ps ! Suc i) =
                Some (JStr (case component.license (example_components ! i) of
                              None \<Rightarrow> ''NOASSERTION''
                            | Some l \<Rightarrow> if l = [] then ''NOASSERTION'' else l)) \<and>
              field ''externalRefs'' (ps ! Suc i) =
                Some (JArr (map (\<lambda>cve. JObj [(''referenceCategory'', JStr ''SECURITY''),
                                              (''referenceType'', JStr ''cpe23Type''),
                                              (''referenceLocator'', JStr cve)])
                              (case component.vulnerabilities (example_components ! i) of
                                 None \<Rightarrow> [] | Some xs \<Rightarrow> xs)))"
    and lr: "length rs = ?n"
    and rel: "\<forall>i < ?n.
              rs ! i = JObj [(''spdxElementId'', JStr ''SPDXRef-RootPackage''),
                             (''relationshipType'', JStr ''CONTAINS''),
                             (''relatedSpdxElement'', JStr (''SPDXRef-Package-'' @ show_nat i))]"
    and once: "\<forall>r \<in> set rs.
              \<exists>!k. k < length ps \<and> field ''SPDXID'' (ps ! k) = field ''relatedSpdxElement'' r"
    using t [of "\<lambda>j. []", THEN conjunct2, THEN conjunct2]
    by blast
  have n: "?n = 2"
    by (simp add: example_components_def)
  have s1: "show_nat 1 = ''1''"
    by code_simp
  have "field ''SPDXID'' (ps ! 2) = Some (JStr ''SPDXRef-Package-1'')"
    using pk n s1 by (auto simp: numeral_2_eq_2)
  moreover have "field ''licenseConcluded'' (ps ! 2) = Some (JStr ''NOASSERTION'')"
  proof -
    have "field ''licenseConcluded'' (ps ! Suc 1) =
                Some (JStr (case component.license (example_components ! 1) of
                              None \<Rightarrow> ''NOASSERTION''
                            | Some l \<Rightarrow> if l = [] then ''NOASSERTION'' else l))"
      using pk n by auto
    then show ?thesis
      by (simp add: example_components_def numeral_2_eq_2)
  qed
  moreover have r1: "rs ! 1 = JObj [(''spdxElementId'', JStr ''SPDXRef-RootPackage''),
                    (''relationshipType'', JStr ''CONTAINS''),
                    (''relatedSpdxElement'', JStr ''SPDXRef-Package-1'')]"
    using rel n s1 by auto
  moreover have "\<exists>!k. k < length ps \<and> field ''SPDXID'' (ps ! k) = field ''relatedSpdxElement'' (rs ! 1)"
  proof -
    have "rs ! 1 \<in> set rs"
      using lr n by simp
    with once show ?thesis by blast
  qed
  moreover have "length ps = 3" "length rs = 2"
    using lp lr n by simp_all
  ultimately have ex: "\<exists>ps rs.
     field ''packages'' ?doc = Some (JArr ps) \<and>
     field ''relationships'' ?doc = Some (JArr rs) \<and>
     length ps = 3 \<and> length rs = 2 \<and>
     field ''SPDXID'' (ps ! 2) = Some (JStr ''SPDXRef-Package-1'') \<and>
     field ''licenseConcluded'' (ps ! 2) = Some (JStr ''NOASSERTION'') \<and>
     rs ! 1 = JObj [(''spdxElementId'', JStr ''SPDXRef-RootPackage''),
                    (''relationshipType'', JStr ''CONTAINS''),
                    (''relatedSpdxElement'', JStr ''SPDXRef-Package-1'')] \<and>
     (\<exists>!k. k < length ps \<and> field ''SPDXID'' (ps ! k) = field ''relatedSpdxElement'' (rs ! 1))"
    using p r by blast
  show ?thesis
    by (intro conjI allI g h ex)
qed

subsection \<open>The export-sbom handler without components\<close>

lemma export_sbom_status_404:
  "response.status (export_sbom stringify now scn comps format) = 404 \<longleftrightarrow> scn = None \<or> comps = None"
  by (simp add: export_sbom_def json_response_def error_response_def split: option.splits)

text \<open>
  C10.  When the scan row exists and the component query succeeds, the export succeeds for
  each of the three formats even if no component row belongs to the scan: the query then
  gives the empty array, which is not null, so the 404 branch is reached only when the
  scan lookup gave no row.  The documents then have no component entries: an empty
  \<open>components\<close> array for CycloneDX and only the root package for SPDX.
\<close>

theorem export_sbom_without_components:
  assumes "format \<in> {''cyclonedx'', ''spdx'', ''swid''}"
    and "\<forall>row \<in> set table. fst row \<noteq> scanId"
  shows "select_components table scanId = Some [] \<and>
         ((response.status (export_sbom stringify now scn (select_components table scanId) format) = 404)
            = (scn = None)) \<and>
         export_sbom stringify now (Some sc) (select_components table scanId) format =
           json_response 200
             (if format = ''cyclonedx'' then
                envelope (stringify (cyclonedx_doc now sc [])) (ecu_name sc @ ''-sbom-cyclonedx.json'')
                  ''application/json''
              else if format = ''spdx'' then
                envelope (stringify (spdx_doc now sc [])) (ecu_name sc @ ''-sbom-spdx.json'')
                  ''application/json''
              else
                envelope (generateSWID sc []) (ecu_name sc @ ''-sbom-swid.xml'') ''application/xml'') \<and>
         field ''components'' (cyclonedx_doc now sc []) = Some (JArr []) \<and>
         field ''packages'' (spdx_doc now sc []) = Some (JArr [spdx_root_package sc])"
proof -
  have "filter (\<lambda>row. fst row = scanId) table = []"
    using assms(2) by (simp add: filter_empty_conv)
  then have sel: "select_components table scanId = Some []"
    by (simp add: select_components_def)
  have st: "(response.status (export_sbom stringify now scn (select_components table scanId) format) = 404)
           = (scn = None)"
    by (simp add: export_sbom_status_404 sel)
  have ok: "export_sbom stringify now (Some sc) (select_components table scanId) format =
           json_response 200
             (if format = ''cyclonedx'' then
                envelope (stringify (cyclonedx_doc now sc [])) (ecu_name sc @ ''-sbom-cyclonedx.json'')
                  ''application/json''
              else if format = ''spdx'' then
                envelope (stringify (spdx_doc now sc [])) (ecu_name sc @ ''-sbom-spdx.json'')
                  ''application/json''
              else
                envelope (generateSWID sc []) (ecu_name sc @ ''-sbom-swid.xml'') ''application/xml'')"
    using assms(1)
    by (auto simp add: sel export_sbom_def generateCycloneDX_def generateSPDX_def)
  have c: "field ''components'' (cyclonedx_doc now sc []) = Some (JArr [])"
    by (simp add: cyclonedx_doc_def field_def map_index_Nil)
  have p: "field ''packages'' (spdx_doc now sc []) = Some (JArr [spdx_root_package sc])"
    by (simp add: spdx_doc_def field_def map_index_Nil)
  show ?thesis
    using sel st ok c p by blast
qed

theorem export_sbom_without_components_witness:
  "''spdx'' \<in> {''cyclonedx'', ''spdx'', ''swid''} \<and>
   ''another-scan'' \<noteq> scan.id example_scan \<and>
   response.status (export_sbom (\<lambda>j. ''{}'') ''2024-01-01T00:00:00.000Z'' (Some example_scan)
             (select_components [(''another-scan'', hd example_components)] (scan.id example_scan))
             ''spdx'') = 200 \<and>
   field ''packages'' (spdx_doc ''2024-01-01T00:00:00.000Z'' example_scan [])
     = Some (JArr [spdx_root_package example_scan])"
proof -
  have f: "''spdx'' \<in> {''cyclonedx'', ''spdx'', ''swid''}"
    by simp
  have t: "\<forall>row \<in> set [(''another-scan'', hd example_components)]. fst row \<noteq> scan.id example_scan"
    by (simp add: example_scan_def)
  note w = export_sbom_without_components [OF f t, of "\<lambda>j. ''{}''" "''2024-01-01T00:00:00.000Z''"
        "Some example_scan" example_scan]
  have "response.status (export_sbom (\<lambda>j. ''{}'') ''2024-01-01T00:00:00.000Z'' (Some example_scan)
             (select_components [(''another-scan'', hd example_components)] (scan.id example_scan))
             ''spdx'') = 200"
    by (simp add: w [THEN conjunct2, THEN conjunct2, THEN conjunct1] json_response_def)
  moreover have "field ''packages'' (spdx_doc ''2024-01-01T00:00:00.000Z'' example_scan [])
     = Some (JArr [spdx_root_package example_scan])"
    using w by blast
  moreover have "''another-scan'' \<noteq> scan.id example_scan"
    by (simp add: example_scan_def)
  ultimately show ?thesis
    using f by blast
qed

subsection \<open>SWID and escapeXml\<close>

lemma replace_all_append: "replace_all c r (xs @ ys) = replace_all c r xs @ replace_all c r ys"
  by (simp add: replace_all_def)

lemma replace_all_Cons: "replace_all c r (x # xs) = (if x = c then r else [x]) @ replace_all c r xs"
  by (simp add: replace_all_def)

lemma replace_all_Nil: "replace_all c r [] = []"
  by (simp add: replace_all_def)

lemma escape_one:
  "replace_all sq ''&apos;''
     (replace_all dq ''&quot;''
       (replace_all CHR ''>'' ''&gt;''
         (replace_all CHR ''<'' ''&lt;''
           (replace_all CHR ''&'' ''&amp;'' [x])))) = escape_char x"
  by (simp add: replace_all_Cons replace_all_Nil escape_char_def dq_def sq_def)

text \<open>
  The five ordered substitutions amount to one pass over the input: no entity written by
  an earlier substitution is touched by a later one.
\<close>

lemma escapeXml_single_pass: "escapeXml s = concat (map escape_char s)"
proof -
  have "replace_all sq ''&apos;''
     (replace_all dq ''&quot;''
       (replace_all CHR ''>'' ''&gt;''
         (replace_all CHR ''<'' ''&lt;''
           (replace_all CHR ''&'' ''&amp;'' s)))) = concat (map escape_char s)"
  proof (induction s)
    case Nil
    then show ?case by (simp add: replace_all_Nil)
  next
    case (Cons x xs)
    have "x # xs = [x] @ xs" by simp
    then show ?case
      using Cons escape_one [of x]
      by (simp only: replace_all_append) simp
  qed
  then show ?thesis
    by (simp add: escapeXml_def)
qed

lemma escapeXml_example:
  "escapeXml (''A&B<C>'' @ [dq] @ ''D'' @ [sq] @ ''E'') = ''A&amp;B&lt;C&gt;&quot;D&apos;E''"
  by (simp add: escapeXml_single_pass escape_char_def dq_def sq_def)

lemma in_join: "l \<in> set ls \<Longrightarrow> \<exists>pre post. join sep ls = pre @ l @ post"
proof (induction sep ls rule: join.induct)
  case (1 sep)
  then show ?case by simp
next
  case (2 sep x)
  then have "join sep [x] = [] @ l @ []" by simp
  then show ?case by blast
next
  case (3 sep x y ys)
  show ?case
  proof (cases "l = x")
    case True
    then have "join sep (x # y # ys) = [] @ l @ (sep @ join sep (y # ys))" by simp
    then show ?thesis by blast
  next
    case False
    with 3 obtain pre post where "join sep (y # ys) = pre @ l @ post" by auto
    then have "join sep (x # y # ys) = (x @ sep @ pre) @ l @ post" by simp
    then show ?thesis by blast
  qed
qed

text \<open>For every scan, the architecture and the scan id are written as they are.\<close>

lemma generateSWID_verbatim:
  "(\<exists>pre post. generateSWID sc comps =
      pre @ (''    revision='' @ q (or_str (architecture sc) ''unknown'')) @ post) \<and>
   (\<exists>pre post. generateSWID sc comps = pre @ (''    tagId='' @ q (scan.id sc)) @ post)"
  unfolding generateSWID_def
  by (intro conjI in_join) (simp_all add: swid_lines_def)

text \<open>
  C2.  The claim lists the architecture among the values that are escaped.  At a scan whose
  architecture is \<open><ARM>\<close> the document carries \<open>revision="<ARM>"\<close>, while the escaped
  text would be \<open>&lt;ARM&gt;\<close>; a component name is escaped as the claim says.
\<close>

theorem generateSWID_architecture_not_escaped:
  "(\<exists>pre post. generateSWID example_scan example_components =
      pre @ (''    revision='' @ [dq] @ ''<ARM>'' @ [dq]) @ post) \<and>
   escapeXml ''<ARM>'' = ''&lt;ARM&gt;'' \<and>
   (\<exists>pre post. generateSWID example_scan example_components =
      pre @ (''      <File name='' @ [dq] @ ''A&amp;B&lt;C&gt;&quot;D&apos;E'' @ [dq]
             @ '' version='' @ [dq] @ ''unknown'' @ [dq] @ '' />'') @ post)"
proof -
  have a: "\<exists>pre post. generateSWID example_scan example_components =
      pre @ (''    revision='' @ [dq] @ ''<ARM>'' @ [dq]) @ post"
    using generateSWID_verbatim [of example_scan example_components]
    by (simp add: example_scan_def or_str_def q_def)
  have b: "escapeXml ''<ARM>'' = ''&lt;ARM&gt;''"
    by (simp add: escapeXml_single_pass escape_char_def dq_def sq_def)
  have s1: "show_nat 1 = ''1''" by code_simp
  have "map_index swid_file example_components =
     [''      <File name='' @ [dq] @ ''openssl'' @ [dq]
             @ '' version='' @ [dq] @ ''1.0.2'' @ [dq] @ '' />'',
      ''      <File name='' @ [dq] @ ''A&amp;B&lt;C&gt;&quot;D&apos;E'' @ [dq]
             @ '' version='' @ [dq] @ ''unknown'' @ [dq] @ '' />'']"
    by (simp add: map_index_def enumerate_eq_zip upt_rec example_components_def swid_file_def q_def or_str_def
        escapeXml_single_pass escape_char_def dq_def sq_def)
  then obtain p1 where j: "join nl (map_index swid_file example_components) =
     p1 @ (''      <File name='' @ [dq] @ ''A&amp;B&lt;C&gt;&quot;D&apos;E'' @ [dq]
             @ '' version='' @ [dq] @ ''unknown'' @ [dq] @ '' />'')"
    by simp
  have "\<exists>pre post. generateSWID example_scan example_components =
         pre @ join nl (map_index swid_file example_components) @ post"
    unfolding generateSWID_def by (intro in_join) (simp add: swid_lines_def)
  then obtain pre post where "generateSWID example_scan example_components =
         pre @ join nl (map_index swid_file example_components) @ post"
    by blast
  then have "generateSWID example_scan example_components =
      (pre @ p1) @ (''      <File name='' @ [dq] @ ''A&amp;B&lt;C&gt;&quot;D&apos;E'' @ [dq]
             @ '' version='' @ [dq] @ ''unknown'' @ [dq] @ '' />'') @ post"
    by (simp only: j append_assoc)
  then have c: "\<exists>pre post. generateSWID example_scan example_components =
      pre @ (''      <File name='' @ [dq] @ ''A&amp;B&lt;C&gt;&quot;D&apos;E'' @ [dq]
             @ '' version='' @ [dq] @ ''unknown'' @ [dq] @ '' />'') @ post"
    by blast
  show ?thesis using a b c by blast
qed

subsection \<open>fetch-cve: cache and fallback\<close>

text \<open>
  C1.  For a request that carries a CVE id: a cached entry younger than 24 hours is
  returned unchanged and the registry is not called; otherwise exactly one request goes to
  the registry, and when its answer is not a success the cached (stale) entry is returned
  as a success if there is one, and the request fails with status 502 if there is none.
  The cache is left as it was in each of these cases.
\<close>

theorem fetch_cve_cache_and_fallback:
  assumes "cveId \<noteq> []"
  shows "(\<forall>e. store cveId = Some e \<and> now - fetched_at e < 24 * 60 * 60 * 1000 \<longrightarrow>
            fetch_cve fetch now store (Some cveId) =
              \<lparr>answer = Success e, cache = store, fetched = []\<rparr>) \<and>
         ((store cveId = None \<or> (\<exists>e. store cveId = Some e \<and> 24 * 60 * 60 * 1000 \<le> now - fetched_at e)) \<longrightarrow>
            fetched (fetch_cve fetch now store (Some cveId)) = [nvd_url cveId]) \<and>
         (\<forall>e payload. store cveId = Some e \<and> 24 * 60 * 60 * 1000 \<le> now - fetched_at e \<and>
            fetch (nvd_url cveId) = UpstreamResponse False payload \<longrightarrow>
            fetch_cve fetch now store (Some cveId) =
              \<lparr>answer = Success e, cache = store, fetched = [nvd_url cveId]\<rparr>) \<and>
         (\<forall>payload. store cveId = None \<and> fetch (nvd_url cveId) = UpstreamResponse False payload \<longrightarrow>
            fetch_cve fetch now store (Some cveId) =
              \<lparr>answer = Failure 502 ''Failed to fetch from NVD'', cache = store,
               fetched = [nvd_url cveId]\<rparr>)"
proof -
  have t: "truthy (Some cveId)" "tmpl (Some cveId) = cveId"
    using assms by (simp_all add: truthy_def tmpl_def)
  have fresh: "fetch_cve fetch now store (Some cveId) =
              \<lparr>answer = Success e, cache = store, fetched = []\<rparr>"
    if "store cveId = Some e" "now - fetched_at e < 24 * 60 * 60 * 1000" for e
    using that t by (simp add: fetch_cve_def oneDayMs_def)
  have once: "fetched (fetch_cve fetch now store (Some cveId)) = [nvd_url cveId]"
    if "store cveId = None \<or> (\<exists>e. store cveId = Some e \<and> 24 * 60 * 60 * 1000 \<le> now - fetched_at e)"
    using that t
    by (auto simp add: fetch_cve_def oneDayMs_def Let_def split: upstream.splits option.splits sum.splits)
  have stale: "fetch_cve fetch now store (Some cveId) =
              \<lparr>answer = Success e, cache = store, fetched = [nvd_url cveId]\<rparr>"
    if "store cveId = Some e" "24 * 60 * 60 * 1000 \<le> now - fetched_at e"
      "fetch (nvd_url cveId) = UpstreamResponse False payload" for e payload
    using that t by (simp add: fetch_cve_def oneDayMs_def)
  have none: "fetch_cve fetch now store (Some cveId) =
              \<lparr>answer = Failure 502 ''Failed to fetch from NVD'', cache = store,
               fetched = [nvd_url cveId]\<rparr>"
    if "store cveId = None" "fetch (nvd_url cveId) = UpstreamResponse False payload" for payload
    using that t by (simp add: fetch_cve_def oneDayMs_def)
  show ?thesis
    using fresh once stale none by blast
qed

theorem fetch_cve_cache_and_fallback_witness:
  "''CVE-2021-44228'' \<noteq> [] \<and>
   fetch_cve (\<lambda>u. UpstreamResponse False (Inl ''Service Unavailable'')) (23 * 60 * 60 * 1000)
       [''CVE-2021-44228'' \<mapsto> example_entry] (Some ''CVE-2021-44228'') =
     \<lparr>answer = Success example_entry, cache = [''CVE-2021-44228'' \<mapsto> example_entry], fetched = []\<rparr> \<and>
   fetch_cve (\<lambda>u. UpstreamResponse False (Inl ''Service Unavailable'')) (25 * 60 * 60 * 1000)
       [''CVE-2021-44228'' \<mapsto> example_entry] (Some ''CVE-2021-44228'') =
     \<lparr>answer = Success example_entry, cache = [''CVE-2021-44228'' \<mapsto> example_entry],
      fetched = [nvd_url ''CVE-2021-44228'']\<rparr> \<and>
   fetch_cve (\<lambda>u. UpstreamResponse False (Inl ''Service Unavailable'')) (25 * 60 * 60 * 1000)
       Map.empty (Some ''CVE-2021-44228'') =
     \<lparr>answer = Failure 502 ''Failed to fetch from NVD'', cache = Map.empty,
      fetched = [nvd_url ''CVE-2021-44228'']\<rparr>"
proof -
  let ?id = "''CVE-2021-44228''"
  let ?f = "\<lambda>u::string. UpstreamResponse False (Inl ''Service Unavailable'')"
  let ?s = "[?id \<mapsto> example_entry]"
  have ne: "?id \<noteq> []" by simp
  have at: "fetched_at example_entry = 0" by (simp add: example_entry_def)
  have s: "?s ?id = Some example_entry" by simp
  have a: "fetch_cve ?f (23 * 60 * 60 * 1000) ?s (Some ?id) =
     \<lparr>answer = Success example_entry, cache = ?s, fetched = []\<rparr>"
    using fetch_cve_cache_and_fallback [OF ne, of ?s "23 * 60 * 60 * 1000" ?f] s at
    by simp
  have b: "fetch_cve ?f (25 * 60 * 60 * 1000) ?s (Some ?id) =
     \<lparr>answer = Success example_entry, cache = ?s, fetched = [nvd_url ?id]\<rparr>"
    using fetch_cve_cache_and_fallback [OF ne, of ?s "25 * 60 * 60 * 1000" ?f] s at
    by simp
  have c: "fetch_cve ?f (25 * 60 * 60 * 1000) Map.empty (Some ?id) =
     \<lparr>answer = Failure 502 ''Failed to fetch from NVD'', cache = Map.empty, fetched = [nvd_url ?id]\<rparr>"
    using fetch_cve_cache_and_fallback [OF ne, of Map.empty "25 * 60 * 60 * 1000" ?f]
    by simp
  show ?thesis using ne a b c by blast
qed

subsection \<open>fetch-cve: no matching record\<close>

lemma first_cve_None:
  "first_cve d = None \<longleftrightarrow>
     nvd_data.vulnerabilities d = None \<or> nvd_data.vulnerabilities d = Some [] \<or>
     (\<exists>item rest. nvd_data.vulnerabilities d = Some (item # rest) \<and> nvd_item.cve item = None)"
  by (auto simp add: first_cve_def first_def split: option.splits list.splits)

lemma fetch_cve_cache_changes:
  "cache (fetch_cve fetch now store cveId) = store \<or>
   (\<exists>cid d c. cveId = Some cid \<and> fetch (nvd_url cid) = UpstreamResponse True (Inr d) \<and>
        first_cve d = Some c \<and>
        answer (fetch_cve fetch now store cveId) = Success (cveData cid now c) \<and>
        cache (fetch_cve fetch now store cveId) = store(cid \<mapsto> cveData cid now c))"
  by (cases cveId)
     (auto simp add: fetch_cve_def Let_def truthy_def tmpl_def
           split: upstream.splits option.splits sum.splits)

text \<open>
  C8.  When the registry is consulted, answers with success and reports no record (its
  \<open>vulnerabilities\<close> array is missing or empty, or its first element has no \<open>cve\<close>), the
  request fails with status 404 and the cache is the one before the call.  In every
  invocation the cache either stays as it was or gains exactly the entry extracted from a
  record the registry returned.
\<close>

theorem fetch_cve_not_found:
  assumes "cveId \<noteq> []"
    and "store cveId = None \<or> (\<exists>e. store cveId = Some e \<and> 24 * 60 * 60 * 1000 \<le> now - fetched_at e)"
    and "fetch (nvd_url cveId) = UpstreamResponse True (Inr d)"
    and "nvd_data.vulnerabilities d = None \<or> nvd_data.vulnerabilities d = Some [] \<or>
         (\<exists>item rest. nvd_data.vulnerabilities d = Some (item # rest) \<and> nvd_item.cve item = None)"
  shows "fetch_cve fetch now store (Some cveId) =
           \<lparr>answer = Failure 404 ''CVE not found'', cache = store, fetched = [nvd_url cveId]\<rparr> \<and>
         (\<forall>fetch' now' store' cveId'.
            cache (fetch_cve fetch' now' store' cveId') \<noteq> store' \<longrightarrow>
            (\<exists>cid d' c. cveId' = Some cid \<and> fetch' (nvd_url cid) = UpstreamResponse True (Inr d') \<and>
               first_cve d' = Some c \<and>
               answer (fetch_cve fetch' now' store' cveId') = Success (cveData cid now' c) \<and>
               cache (fetch_cve fetch' now' store' cveId') = store'(cid \<mapsto> cveData cid now' c)))"
proof -
  have t: "truthy (Some cveId)" "tmpl (Some cveId) = cveId"
    using assms(1) by (simp_all add: truthy_def tmpl_def)
  have n: "first_cve d = None"
    using assms(4) by (simp add: first_cve_None)
  have "fetch_cve fetch now store (Some cveId) =
           \<lparr>answer = Failure 404 ''CVE not found'', cache = store, fetched = [nvd_url cveId]\<rparr>"
    using assms(2,3) t n
    by (auto simp add: fetch_cve_def oneDayMs_def Let_def)
  then show ?thesis
    using fetch_cve_cache_changes by blast
qed

theorem fetch_cve_not_found_witness:
  "''CVE-2099-0001'' \<noteq> [] \<and>
   fetch_cve (\<lambda>u. UpstreamResponse True (Inr \<lparr>nvd_data.vulnerabilities = Some []\<rparr>)) (25 * 60 * 60 * 1000)
       Map.empty (Some ''CVE-2099-0001'') =
     \<lparr>answer = Failure 404 ''CVE not found'', cache = Map.empty,
      fetched = [nvd_url ''CVE-2099-0001'']\<rparr>"
proof -
  let ?d = "\<lparr>nvd_data.vulnerabilities = Some []\<rparr> :: nvd_data"
  have ne: "''CVE-2099-0001'' \<noteq> []" by simp
  have a: "Map.empty ''CVE-2099-0001'' = (None :: cve_entry option) \<or>
       (\<exists>e. Map.empty ''CVE-2099-0001'' = Some (e :: cve_entry) \<and>
          24 * 60 * 60 * 1000 \<le> (25 * 60 * 60 * 1000) - fetched_at e)"
    by simp
  have f: "(\<lambda>u::string. UpstreamResponse True (Inr ?d)) (nvd_url ''CVE-2099-0001'') =
      UpstreamResponse True (Inr ?d)"
    by simp
  have v: "nvd_data.vulnerabilities ?d = None \<or> nvd_data.vulnerabilities ?d = Some [] \<or>
         (\<exists>item rest. nvd_data.vulnerabilities ?d = Some (item # rest) \<and> nvd_item.cve item = None)"
    by simp
  show ?thesis
    using ne fetch_cve_not_found [OF ne a f v] by blast
qed

subsection \<open>fetch-cve: extraction\<close>

lemma filter_Boolean_append: "filter_Boolean (xs @ ys) = filter_Boolean xs @ filter_Boolean ys"
  by (simp add: filter_Boolean_def)

lemma filter_Boolean_concat: "filter_Boolean (concat xss) = concat (map filter_Boolean xss)"
  by (induction xss) (simp_all add: filter_Boolean_append, simp add: filter_Boolean_def)

lemma extract_cweIds_flat:
  "extract_cweIds c =
     concat (map (\<lambda>w. concat (map (\<lambda>d. case lang_string.value d of
                                            None \<Rightarrow> []
                                          | Some v \<Rightarrow> if v = [] then [] else [v])
                                   (case weakness.description w of None \<Rightarrow> [] | Some ds \<Rightarrow> ds)))
                 (case weaknesses c of None \<Rightarrow> [] | Some ws \<Rightarrow> ws))"
proof (cases "weaknesses c")
  case None
  then show ?thesis by (simp add: extract_cweIds_def)
next
  case (Some ws)
  have eq: "filter_Boolean (case weakness.description w of None \<Rightarrow> [None] | Some ds \<Rightarrow> map lang_string.value ds)
        = concat (map (\<lambda>d. case lang_string.value d of
                                None \<Rightarrow> []
                              | Some v \<Rightarrow> if v = [] then [] else [v])
                      (case weakness.description w of None \<Rightarrow> [] | Some ds \<Rightarrow> ds))" for w :: weakness
    by (cases "weakness.description w") (simp_all add: filter_Boolean_def comp_def)
  show ?thesis
    using Some by (simp add: extract_cweIds_def filter_Boolean_concat comp_def eq)
qed

lemma extract_description_none:
  "descriptions c = None \<or> (\<exists>ds. descriptions c = Some ds \<and> (\<forall>d \<in> set ds. lang d \<noteq> ''en''))
   \<Longrightarrow> extract_description c = []"
proof (cases "descriptions c")
  case None
  then show ?thesis by (simp add: extract_description_def or_str_def)
next
  case (Some ds)
  assume "descriptions c = None \<or> (\<exists>ds. descriptions c = Some ds \<and> (\<forall>d \<in> set ds. lang d \<noteq> ''en''))"
  with Some have "\<forall>d \<in> set ds. lang d \<noteq> ''en''" by simp
  then have "find (\<lambda>d. lang d = ''en'') ds = None"
    by (simp add: find_None_iff)
  with Some show ?thesis by (simp add: extract_description_def or_str_def)
qed

lemma find_first:
  "\<forall>x \<in> set pre. \<not> P x \<Longrightarrow> P d \<Longrightarrow> find P (pre @ d # post) = Some d"
  by (induction pre) simp_all

lemma extract_description_first:
  assumes "descriptions c = Some (pre @ d # post)"
    and "\<forall>x \<in> set pre. lang x \<noteq> ''en''" and "lang d = ''en''"
  shows "extract_description c =
           (case lang_string.value d of None \<Rightarrow> [] | Some v \<Rightarrow> v)"
proof -
  have "find (\<lambda>d. lang d = ''en'') (pre @ d # post) = Some d"
    using assms(2,3) by (intro find_first) simp_all
  then show ?thesis
    using assms(1) by (simp add: extract_description_def or_str_def split: option.splits)
qed

lemma reference_eta: "\<lparr>url = url r, source = source r, tags = tags r\<rparr> = (r :: reference)"
  by (cases r) simp

lemma extract_referenceLinks_eq:
  "extract_referenceLinks c = (case references c of None \<Rightarrow> [] | Some rs \<Rightarrow> rs)"
  by (simp add: extract_referenceLinks_def reference_eta split: option.splits)

text \<open>
  C7 as stated fails: the identifiers of the weaknesses are flattened and the absent ones are
  dropped, but nothing removes duplicates.  The registry record \<open>example_cve\<close> names
  \<open>CWE-787\<close> in two weaknesses, and the entry the resolver answers with lists it twice.
\<close>

theorem fetch_cve_cwe_ids_duplicates:
  "answer (fetch_cve example_registry 0 empty_cache (Some ''CVE-2023-0001''))
     = Success (cveData ''CVE-2023-0001'' 0 example_cve) \<and>
   cve_entry.cwe_ids (cveData ''CVE-2023-0001'' 0 example_cve) = [''CWE-787'', ''CWE-787''] \<and>
   \<not> distinct (cve_entry.cwe_ids (cveData ''CVE-2023-0001'' 0 example_cve))"
proof -
  have "answer (fetch_cve example_registry 0 empty_cache (Some ''CVE-2023-0001''))
     = Success (cveData ''CVE-2023-0001'' 0 example_cve)"
    by (simp add: fetch_cve_def Let_def truthy_def tmpl_def first_cve_def first_def
        example_registry_def empty_cache_def)
  moreover have "cve_entry.cwe_ids (cveData ''CVE-2023-0001'' 0 example_cve) = [''CWE-787'', ''CWE-787'']"
    by (simp add: cveData_def extract_cweIds_flat example_cve_def)
  ultimately show ?thesis by simp
qed

text \<open>
  C7, amended.  For a successful answer of the registry with a matching record, the entry
  the resolver answers with and stores has: score and severity of the first v3.1 metric
  when there is one, otherwise of the first v2 metric, otherwise none, the severity in
  lower case; as description the value of the first description tagged \<open>en\<close>, or the empty
  string when there is none; as CWE ids the values of all weakness descriptions, flattened
  in order, without the absent and the empty ones, duplicates kept; and the registry's
  references with their url, source and tags.
\<close>

theorem fetch_cve_extraction:
  assumes "cveId \<noteq> []"
    and "store cveId = None \<or> (\<exists>e. store cveId = Some e \<and> 24 * 60 * 60 * 1000 \<le> now - fetched_at e)"
    and "fetch (nvd_url cveId) = UpstreamResponse True (Inr d)"
    and "nvd_data.vulnerabilities d = Some (item # rest)" and "nvd_item.cve item = Some c"
  shows "\<exists>e. answer (fetch_cve fetch now store (Some cveId)) = Success e \<and>
           cache (fetch_cve fetch now store (Some cveId)) = store(cveId \<mapsto> e) \<and>
           (cve_entry.cvss_score e, cve_entry.severity e) =
             (case first (case metrics c of None \<Rightarrow> None | Some m \<Rightarrow> cvssMetricV31 m) of
                Some m31 \<Rightarrow> (baseScore (cvssData m31),
                             map_option toLowerCase (cvssData.baseSeverity (cvssData m31)))
              | None \<Rightarrow>
                 (case first (case metrics c of None \<Rightarrow> None | Some m \<Rightarrow> cvssMetricV2 m) of
                    Some m2 \<Rightarrow> (baseScore (cvssData m2),
                                map_option toLowerCase (cvssMetric.baseSeverity m2))
                  | None \<Rightarrow> (None, None))) \<and>
           ((descriptions c = None \<or>
             (\<exists>ds. descriptions c = Some ds \<and> (\<forall>x \<in> set ds. lang x \<noteq> ''en'')))
              \<longrightarrow> cve_entry.description e = []) \<and>
           (\<forall>pre x post. descriptions c = Some (pre @ x # post) \<and>
              (\<forall>y \<in> set pre. lang y \<noteq> ''en'') \<and> lang x = ''en''
              \<longrightarrow> cve_entry.description e = (case lang_string.value x of None \<Rightarrow> [] | Some v \<Rightarrow> v)) \<and>
           cve_entry.cwe_ids e =
             concat (map (\<lambda>w. concat (map (\<lambda>x. case lang_string.value x of
                                                    None \<Rightarrow> []
                                                  | Some v \<Rightarrow> if v = [] then [] else [v])
                                           (case weakness.description w of None \<Rightarrow> [] | Some ds \<Rightarrow> ds)))
                         (case weaknesses c of None \<Rightarrow> [] | Some ws \<Rightarrow> ws)) \<and>
           cve_entry.reference_links e = (case references c of None \<Rightarrow> [] | Some rs \<Rightarrow> rs)"
proof -
  let ?e = "cveData cveId now c"
  have t: "truthy (Some cveId)" "tmpl (Some cveId) = cveId"
    using assms(1) by (simp_all add: truthy_def tmpl_def)
  have fc: "first_cve d = Some c"
    using assms(4,5) by (simp add: first_cve_def first_def)
  have run: "fetch_cve fetch now store (Some cveId) =
      \<lparr>answer = Success ?e, cache = store(cveId \<mapsto> ?e), fetched = [nvd_url cveId]\<rparr>"
    using assms(2,3) t fc by (auto simp add: fetch_cve_def oneDayMs_def Let_def)
  have a: "answer (fetch_cve fetch now store (Some cveId)) = Success ?e"
    and b: "cache (fetch_cve fetch now store (Some cveId)) = store(cveId \<mapsto> ?e)"
    by (simp_all add: run)
  have cv: "(cve_entry.cvss_score ?e, cve_entry.severity ?e) =
             (case first (case metrics c of None \<Rightarrow> None | Some m \<Rightarrow> cvssMetricV31 m) of
                Some m31 \<Rightarrow> (baseScore (cvssData m31),
                             map_option toLowerCase (cvssData.baseSeverity (cvssData m31)))
              | None \<Rightarrow>
                 (case first (case metrics c of None \<Rightarrow> None | Some m \<Rightarrow> cvssMetricV2 m) of
                    Some m2 \<Rightarrow> (baseScore (cvssData m2),
                                map_option toLowerCase (cvssMetric.baseSeverity m2))
                  | None \<Rightarrow> (None, None)))"
    by (simp add: cveData_def extract_cvss_def split: option.splits)
  have d0: "cve_entry.description ?e = []"
    if "descriptions c = None \<or>
        (\<exists>ds. descriptions c = Some ds \<and> (\<forall>x \<in> set ds. lang x \<noteq> ''en''))"
    using extract_description_none [OF that] by (simp add: cveData_def)
  have d1: "cve_entry.description ?e = (case lang_string.value x of None \<Rightarrow> [] | Some v \<Rightarrow> v)"
    if "descriptions c = Some (pre @ x # post)" "\<forall>y \<in> set pre. lang y \<noteq> ''en''" "lang x = ''en''"
    for pre x post
    using extract_description_first [OF that] by (simp add: cveData_def)
  have cw: "cve_entry.cwe_ids ?e =
             concat (map (\<lambda>w. concat (map (\<lambda>x. case lang_string.value x of
                                                    None \<Rightarrow> []
                                                  | Some v \<Rightarrow> if v = [] then [] else [v])
                                           (case weakness.description w of None \<Rightarrow> [] | Some ds \<Rightarrow> ds)))
                         (case weaknesses c of None \<Rightarrow> [] | Some ws \<Rightarrow> ws))"
    by (simp add: cveData_def extract_cweIds_flat)
  have rf: "cve_entry.reference_links ?e = (case references c of None \<Rightarrow> [] | Some rs \<Rightarrow> rs)"
    by (simp add: cveData_def extract_referenceLinks_eq)
  show ?thesis
    using a b cv d0 d1 cw rf by blast
qed

theorem fetch_cve_extraction_witness:
  "''CVE-2023-0001'' \<noteq> [] \<and>
   (\<exists>e. answer (fetch_cve example_registry 0 empty_cache (Some ''CVE-2023-0001'')) = Success e \<and>
      cache (fetch_cve example_registry 0 empty_cache (Some ''CVE-2023-0001''))
        = empty_cache(''CVE-2023-0001'' \<mapsto> e) \<and>
      cve_entry.cvss_score e = Some (98 / 10) \<and>
      cve_entry.severity e = Some ''critical'' \<and>
      cve_entry.description e = ''Out-of-bounds write'' \<and>
      cve_entry.cwe_ids e = [''CWE-787'', ''CWE-787''] \<and>
      cve_entry.reference_links e =
        [\<lparr>url = Some ''https://example.org/advisory'', source = Some ''cve@mitre.org'',
          tags = Some [''Vendor Advisory'']\<rparr>])"
proof -
  let ?id = "''CVE-2023-0001''"
  let ?d = "\<lparr>nvd_data.vulnerabilities = Some [\<lparr>nvd_item.cve = Some example_cve\<rparr>]\<rparr>"
  let ?es = "\<lparr>lang = ''es'', value = Some ''Escritura fuera de limites''\<rparr>"
  let ?en = "\<lparr>lang = ''en'', value = Some ''Out-of-bounds write''\<rparr>"
  have ne: "?id \<noteq> []" by simp
  have miss: "empty_cache ?id = None \<or>
      (\<exists>e. empty_cache ?id = Some e \<and> 24 * 60 * 60 * 1000 \<le> 0 - fetched_at e)"
    by (simp add: empty_cache_def)
  have f: "example_registry (nvd_url ?id) = UpstreamResponse True (Inr ?d)"
    by (simp add: example_registry_def)
  have v: "nvd_data.vulnerabilities ?d = Some (\<lparr>nvd_item.cve = Some example_cve\<rparr> # [])"
    by simp
  have c: "nvd_item.cve \<lparr>nvd_item.cve = Some example_cve\<rparr> = Some example_cve"
    by simp
  obtain e where
    a: "answer (fetch_cve example_registry 0 empty_cache (Some ?id)) = Success e"
    and b: "cache (fetch_cve example_registry 0 empty_cache (Some ?id)) = empty_cache(?id \<mapsto> e)"
    and cv: "(cve_entry.cvss_score e, cve_entry.severity e) =
             (case first (case metrics example_cve of None \<Rightarrow> None | Some m \<Rightarrow> cvssMetricV31 m) of
                Some m31 \<Rightarrow> (baseScore (cvssData m31),
                             map_option toLowerCase (cvssData.baseSeverity (cvssData m31)))
              | None \<Rightarrow>
                 (case first (case metrics example_cve of None \<Rightarrow> None | Some m \<Rightarrow> cvssMetricV2 m) of
                    Some m2 \<Rightarrow> (baseScore (cvssData m2),
                                map_option toLowerCase (cvssMetric.baseSeverity m2))
                  | None \<Rightarrow> (None, None)))"
    and d1: "\<forall>pre x post. descriptions example_cve = Some (pre @ x # post) \<and>
              (\<forall>y \<in> set pre. lang y \<noteq> ''en'') \<and> lang x = ''en''
              \<longrightarrow> cve_entry.description e = (case lang_string.value x of None \<Rightarrow> [] | Some v \<Rightarrow> v)"
    and cw: "cve_entry.cwe_ids e =
             concat (map (\<lambda>w. concat (map (\<lambda>x. case lang_string.value x of
                                                    None \<Rightarrow> []
                                                  | Some v \<Rightarrow> if v = [] then [] else [v])
                                           (case weakness.description w of None \<Rightarrow> [] | Some ds \<Rightarrow> ds)))
                         (case weaknesses example_cve of None \<Rightarrow> [] | Some ws \<Rightarrow> ws))"
    and rf: "cve_entry.reference_links e = (case references example_cve of None \<Rightarrow> [] | Some rs \<Rightarrow> rs)"
    using fetch_cve_extraction [where fetch = example_registry and store = empty_cache
        and now = 0 and cveId = ?id, OF ne miss f v c] by blast
  have low: "toLowerCase ''CRITICAL'' = ''critical''"
    by code_simp
  have "cve_entry.cvss_score e = Some (98 / 10)" "cve_entry.severity e = Some ''critical''"
    using cv by (simp_all add: example_cve_def first_def low)
  moreover have "cve_entry.description e = ''Out-of-bounds write''"
  proof -
    have "descriptions example_cve = Some ([?es] @ ?en # [])"
      by (simp add: example_cve_def)
    moreover have "\<forall>y \<in> set [?es]. lang y \<noteq> ''en''" by simp
    moreover have "lang ?en = ''en''" by simp
    ultimately have "cve_entry.description e =
        (case lang_string.value ?en of None \<Rightarrow> [] | Some v \<Rightarrow> v)"
      using d1 by blast
    then show ?thesis by simp
  qed
  moreover have "cve_entry.cwe_ids e = [''CWE-787'', ''CWE-787'']"
    using cw by (simp add: example_cve_def)
  moreover have "cve_entry.reference_links e =
        [\<lparr>url = Some ''https://example.org/advisory'', source = Some ''cve@mitre.org'',
          tags = Some [''Vendor Advisory'']\<rparr>]"
    using rf by (simp add: example_cve_def)
  ultimately show ?thesis
    using ne a b by blast
qed

subsection \<open>generate-report: the pdf format\<close>

lemma generate_report_json:
  assumes "scanId \<noteq> []" and "report_data.scan d = Some sc" and "\<not> scanError d"
  shows "generate_report numberToString now_iso now_locale d (Some scanId) (Some ''json'') =
           \<lparr>response.status = 200, content = JsonBody (report now_iso sc d),
            disposition = Some (''attachment; filename='' @ q (''scan-report-'' @ scanId @ ''.json''))\<rparr>"
  using assms by (simp add: generate_report_def truthy_def tmpl_def)

text \<open>
  Sent to the handler as it is, the format \<open>pdf\<close> is not \<open>json\<close> and gives the markdown
  report; the degradation to \<open>json\<close> is the work of the client hook.
\<close>

lemma generate_report_pdf_direct:
  assumes "scanId \<noteq> []" and "report_data.scan d = Some sc" and "\<not> scanError d"
  shows "generate_report numberToString now_iso now_locale d (Some scanId) (Some ''pdf'') =
           \<lparr>response.status = 200, content = TextBody (textReport numberToString now_locale sc d),
            disposition = Some (''attachment; filename='' @ q (''scan-report-'' @ scanId @ ''.md''))\<rparr>"
  using assms by (simp add: generate_report_def truthy_def tmpl_def)

text \<open>
  C9.  A report requested through \<open>useGenerateReport\<close> with format \<open>pdf\<close> sends the handler
  the request that format \<open>json\<close> sends, so the two answers have the same content; for a
  scan that exists this content is the JSON report document, answered with the filename
  hint \<open>scan-report-<scanId>.json\<close>.
\<close>

theorem pdf_degrades_to_json:
  "useGenerateReport invoke scanId (Some ''pdf'') =
     (case useGenerateReport invoke scanId (Some ''json'') of
        Inl r \<Rightarrow> Inl r
      | Inr (HookResult c f) \<Rightarrow> Inr (HookResult c ''pdf'')) \<and>
   (scanId \<noteq> [] \<and> report_data.scan d = Some sc \<and> \<not> scanError d \<longrightarrow>
      useGenerateReport (generate_report numberToString now_iso now_locale d) scanId (Some ''pdf'')
        = Inr (HookResult (JsonBody (report now_iso sc d)) ''pdf'') \<and>
      useGenerateReport (generate_report numberToString now_iso now_locale d) scanId (Some ''json'')
        = Inr (HookResult (JsonBody (report now_iso sc d)) ''json'') \<and>
      generate_report numberToString now_iso now_locale d (Some scanId) (Some ''json'') =
        \<lparr>response.status = 200, content = JsonBody (report now_iso sc d),
         disposition = Some (''attachment; filename='' @ q (''scan-report-'' @ scanId @ ''.json''))\<rparr>)"
proof -
  have a: "useGenerateReport invoke scanId (Some ''pdf'') =
     (case useGenerateReport invoke scanId (Some ''json'') of
        Inl r \<Rightarrow> Inl r
      | Inr (HookResult c f) \<Rightarrow> Inr (HookResult c ''pdf''))"
    by (simp add: useGenerateReport_def Let_def)
  have b: "useGenerateReport (generate_report numberToString now_iso now_locale d) scanId (Some ''pdf'')
        = Inr (HookResult (JsonBody (report now_iso sc d)) ''pdf'') \<and>
      useGenerateReport (generate_report numberToString now_iso now_locale d) scanId (Some ''json'')
        = Inr (HookResult (JsonBody (report now_iso sc d)) ''json'') \<and>
      generate_report numberToString now_iso now_locale d (Some scanId) (Some ''json'') =
        \<lparr>response.status = 200, content = JsonBody (report now_iso sc d),
         disposition = Some (''attachment; filename='' @ q (''scan-report-'' @ scanId @ ''.json''))\<rparr>"
    if "scanId \<noteq> []" "report_data.scan d = Some sc" "\<not> scanError d"
    using generate_report_json [OF that]
    by (simp add: useGenerateReport_def Let_def)
  show ?thesis using a b by blast
qed

theorem pdf_degrades_to_json_witness:
  "''7d0f4c1e-0000-4000-8000-000000000001'' \<noteq> [] \<and>
   report_data.scan example_report_data = Some example_scan \<and>
   \<not> scanError example_report_data \<and>
   useGenerateReport
       (generate_report example_numberToString ''2024-01-01T00:00:00.000Z'' ''1/1/2024, 12:00:00 AM''
          example_report_data)
       ''7d0f4c1e-0000-4000-8000-000000000001'' (Some ''pdf'')
     = Inr (HookResult (JsonBody (report ''2024-01-01T00:00:00.000Z'' example_scan example_report_data))
              ''pdf'')"
proof -
  have h: "''7d0f4c1e-0000-4000-8000-000000000001'' \<noteq> [] \<and>
      report_data.scan example_report_data = Some example_scan \<and> \<not> scanError example_report_data"
    by (simp add: example_report_data_def)
  show ?thesis
    using h pdf_degrades_to_json [of "generate_report example_numberToString
          ''2024-01-01T00:00:00.000Z'' ''1/1/2024, 12:00:00 AM'' example_report_data"
        "''7d0f4c1e-0000-4000-8000-000000000001''" example_report_data example_scan
        example_numberToString "''2024-01-01T00:00:00.000Z''" "''1/1/2024, 12:00:00 AM''"]
    by blast
qed

subsection \<open>generate-report: the order of the vulnerabilities\<close>

lemma md_vulnerability_not_empty: "md_vulnerability numberToString i v \<noteq> []"
  by (simp add: md_vulnerability_def nl_def)

lemma join_not_empty: "xs \<noteq> [] \<Longrightarrow> hd xs \<noteq> [] \<Longrightarrow> join sep xs \<noteq> []"
  by (induction sep xs rule: join.induct) simp_all

lemma md_vulnerabilities_Some:
  "md_vulnerabilities numberToString (Some vs) =
     (if vs = [] then ''No vulnerabilities found.''
      else join nl (map_index (md_vulnerability numberToString) vs))"
proof (cases vs)
  case Nil
  then show ?thesis by (simp add: md_vulnerabilities_def map_index_Nil)
next
  case (Cons v vs')
  have "map_index (md_vulnerability numberToString) vs \<noteq> []"
    using Cons by (simp add: map_index_def)
  moreover have "hd (map_index (md_vulnerability numberToString) vs) \<noteq> []"
    using Cons by (simp add: map_index_def md_vulnerability_not_empty)
  ultimately have "join nl (map_index (md_vulnerability numberToString) vs) \<noteq> []"
    by (rule join_not_empty)
  then show ?thesis using Cons by (simp add: md_vulnerabilities_def)
qed

lemma report_vulnerabilities:
  "field ''vulnerabilities'' (report now_iso sc d) =
     (case report_data.vulnerabilities d of None \<Rightarrow> None
      | Some vs \<Rightarrow> Some (JArr (map vulnerability_json vs)))"
  by (simp add: report_def field_def opt_key_def split: option.splits)

lemma textReport_vulnerabilities:
  "\<exists>pre post. textReport numberToString now_locale sc d =
     pre @ md_vulnerabilities numberToString (report_data.vulnerabilities d) @ post"
  unfolding textReport_def
  by (intro in_join) (simp add: textReport_lines_def)

text \<open>
  C4.  With the store's query ordering its rows by the ordinal of the severity (critical 0,
  high 1, medium 2, low 3, info 4), the vulnerability list of every report is in that
  order, critical entries first and info entries last: the \<open>vulnerabilities\<close> array of the
  JSON document is the projection of the ordered rows, entry by entry, and the detailed
  section of the markdown report is the join of their sections in the same order,
  numbered from 1.
\<close>

theorem report_vulnerabilities_ordered:
  assumes "report_data.vulnerabilities d = select_vulnerabilities table scanId"
  shows "map severity_ordinal [Critical, High, Medium, Low, Info] = [0, 1, 2, 3, 4] \<and>
         (\<exists>vs. report_data.vulnerabilities d = Some vs \<and>
            mset vs = mset (map snd (filter (\<lambda>row. fst row = scanId) table)) \<and>
            sorted (map (\<lambda>v. severity_ordinal (vulnerability.severity v)) vs) \<and>
            (\<forall>i j. i < j \<and> j < length vs \<longrightarrow>
               severity_ordinal (vulnerability.severity (vs ! i))
                 \<le> severity_ordinal (vulnerability.severity (vs ! j))) \<and>
            field ''vulnerabilities'' (report now_iso sc d) = Some (JArr (map vulnerability_json vs)) \<and>
            (\<forall>i < length vs.
               field ''severity'' (map vulnerability_json vs ! i)
                 = Some (JStr (severity_text (vulnerability.severity (vs ! i))))) \<and>
            md_vulnerabilities numberToString (report_data.vulnerabilities d) =
              (if vs = [] then ''No vulnerabilities found.''
               else join nl (map_index (md_vulnerability numberToString) vs)) \<and>
            (\<forall>i < length vs.
               map_index (md_vulnerability numberToString) vs ! i
                 = md_vulnerability numberToString i (vs ! i)) \<and>
            (\<exists>pre post. textReport numberToString now_locale sc d =
               pre @ md_vulnerabilities numberToString (report_data.vulnerabilities d) @ post))"
proof -
  let ?rows = "map snd (filter (\<lambda>row. fst row = scanId) table)"
  let ?k = "\<lambda>v. severity_ordinal (vulnerability.severity v)"
  let ?vs = "sort_key ?k ?rows"
  have ord: "map severity_ordinal [Critical, High, Medium, Low, Info] = [0, 1, 2, 3, 4]"
    by (simp add: severity_ordinal_def)
  have v: "report_data.vulnerabilities d = Some ?vs"
    using assms by (simp add: select_vulnerabilities_def)
  have m: "mset ?vs = mset ?rows"
    by simp
  have s: "sorted (map ?k ?vs)"
    by (rule sorted_sort_key)
  have le: "?k (?vs ! i) \<le> ?k (?vs ! j)" if "i < j \<and> j < length ?vs" for i j
  proof -
    have "map ?k ?vs ! i \<le> map ?k ?vs ! j"
      using s that by (intro sorted_nth_mono) simp_all
    then show ?thesis using that by simp
  qed
  have js: "field ''vulnerabilities'' (report now_iso sc d) = Some (JArr (map vulnerability_json ?vs))"
    by (simp add: report_vulnerabilities v)
  have sev: "field ''severity'' (map vulnerability_json ?vs ! i)
                 = Some (JStr (severity_text (vulnerability.severity (?vs ! i))))"
    if "i < length ?vs" for i
    using that by (simp add: vulnerability_json_def field_def)
  have md: "md_vulnerabilities numberToString (report_data.vulnerabilities d) =
              (if ?vs = [] then ''No vulnerabilities found.''
               else join nl (map_index (md_vulnerability numberToString) ?vs))"
    by (simp only: v md_vulnerabilities_Some)
  have sec: "map_index (md_vulnerability numberToString) ?vs ! i
                 = md_vulnerability numberToString i (?vs ! i)"
    if "i < length ?vs" for i
    using that by (rule nth_map_index)
  have tx: "\<exists>pre post. textReport numberToString now_locale sc d =
               pre @ md_vulnerabilities numberToString (report_data.vulnerabilities d) @ post"
    by (rule textReport_vulnerabilities)
  show ?thesis
    using ord v m s le js sev md sec tx by blast
qed

theorem report_vulnerabilities_ordered_witness:
  "report_data.vulnerabilities example_report_data =
     select_vulnerabilities example_vulnerability_table ''7d0f4c1e-0000-4000-8000-000000000001'' \<and>
   (\<exists>vs. report_data.vulnerabilities example_report_data = Some vs \<and>
      map vulnerability.id vs = [''v4'', ''v2'', ''v5'', ''v1''] \<and>
      map vulnerability.severity vs = [Critical, High, High, Low] \<and>
      sorted (map (\<lambda>v. severity_ordinal (vulnerability.severity v)) vs) \<and>
      field ''vulnerabilities'' (report ''2024-01-01T00:00:00.000Z'' example_scan example_report_data)
        = Some (JArr (map vulnerability_json vs)))"
proof -
  let ?id = "''7d0f4c1e-0000-4000-8000-000000000001''"
  have a: "report_data.vulnerabilities example_report_data =
      select_vulnerabilities example_vulnerability_table ?id"
    by (simp add: example_report_data_def)
  obtain vs where
    v: "report_data.vulnerabilities example_report_data = Some vs"
    and s: "sorted (map (\<lambda>v. severity_ordinal (vulnerability.severity v)) vs)"
    and j: "field ''vulnerabilities'' (report ''2024-01-01T00:00:00.000Z'' example_scan example_report_data)
        = Some (JArr (map vulnerability_json vs))"
    using report_vulnerabilities_ordered [OF a, of "''2024-01-01T00:00:00.000Z''" example_scan]
    by blast
  have "select_vulnerabilities example_vulnerability_table ?id =
      Some [example_vulnerability ''v4'' Critical ''Hard-coded key'',
            example_vulnerability ''v2'' High ''Stack overflow'',
            example_vulnerability ''v5'' High ''Format string'',
            example_vulnerability ''v1'' Low ''Weak checksum'']"
    by (simp add: select_vulnerabilities_def example_vulnerability_table_def
        example_vulnerability_def severity_ordinal_def)
  with a v have "vs = [example_vulnerability ''v4'' Critical ''Hard-coded key'',
            example_vulnerability ''v2'' High ''Stack overflow'',
            example_vulnerability ''v5'' High ''Format string'',
            example_vulnerability ''v1'' Low ''Weak checksum'']"
    by simp
  then have i: "map vulnerability.id vs = [''v4'', ''v2'', ''v5'', ''v1'']"
    and sv: "map vulnerability.severity vs = [Critical, High, High, Low]"
    by (simp_all add: example_vulnerability_def)
  have "\<exists>vs. report_data.vulnerabilities example_report_data = Some vs \<and>
      map vulnerability.id vs = [''v4'', ''v2'', ''v5'', ''v1''] \<and>
      map vulnerability.severity vs = [Critical, High, High, Low] \<and>
      sorted (map (\<lambda>v. severity_ordinal (vulnerability.severity v)) vs) \<and>
      field ''vulnerabilities'' (report ''2024-01-01T00:00:00.000Z'' example_scan example_report_data)
        = Some (JArr (map vulnerability_json vs))"
    by (rule exI [of _ vs]) (simp only: v s j i sv simp_thms)
  with a show ?thesis by (rule conjI)
qed

subsection \<open>Double-precision rounding\<close>

lemma pow2_powi: "pow2 e = 2 powi e"
  by (simp add: pow2_def power_int_def field_simps)

lemma pow2_pos: "0 < pow2 e"
  by (simp add: pow2_powi)

lemma pow2_add: "pow2 (a + b) = pow2 a * pow2 b"
  by (simp add: pow2_powi power_int_add)

lemma pow2_nat: "0 \<le> e \<Longrightarrow> pow2 e = of_int (2 ^ nat e)"
  by (simp add: pow2_def)

lemma pow2_mono: "a \<le> b \<Longrightarrow> pow2 a \<le> pow2 b"
  by (simp add: pow2_powi power_int_increasing)

lemma pow2_less_imp: "pow2 a < pow2 b \<Longrightarrow> a < b"
  using pow2_mono [of b a] by (cases "a < b") simp_all

lemma binade_bounds: "0 < x \<Longrightarrow> pow2 (binade x) \<le> x \<and> x < pow2 (binade x + 1)"
proof (induction x rule: binade.induct)
  case (1 x)
  have half: "pow2 (e - 1) = pow2 e / 2" for e
    using pow2_add [of "e - 1" 1] by (simp add: pow2_def)
  have twice: "pow2 (e + 1) = 2 * pow2 e" for e
    using pow2_add [of e 1] by (simp add: pow2_def)
  show ?case
  proof (cases "x < 1")
    case True
    with 1 have ih: "pow2 (binade (2 * x)) \<le> 2 * x \<and> 2 * x < pow2 (binade (2 * x) + 1)"
      by simp
    have b: "binade x = binade (2 * x) - 1"
      using True 1(3) by (subst binade.simps) simp
    show ?thesis
      using ih by (simp add: b half twice)
  next
    case False
    show ?thesis
    proof (cases "2 \<le> x")
      case True
      with 1 False have ih: "pow2 (binade (x / 2)) \<le> x / 2 \<and> x / 2 < pow2 (binade (x / 2) + 1)"
        by simp
      have b: "binade x = binade (x / 2) + 1"
        using True False 1(3) by (subst binade.simps) simp
      show ?thesis
        using ih twice [of "binade (x / 2) + 1"] by (simp add: b twice)
    next
      case F2: False
      have b: "binade x = 0"
        using False F2 1(3) by (subst binade.simps) simp
      show ?thesis
        using False F2 by (simp add: b pow2_def)
    qed
  qed
qed

lemma binade_less: "0 < x \<Longrightarrow> x < pow2 k \<Longrightarrow> binade x < k"
  using binade_bounds [of x] by (intro pow2_less_imp) simp

lemma round_half_even_bounds:
  "r - 1 / 2 \<le> of_int (round_half_even r) \<and> of_int (round_half_even r) \<le> r + 1 / 2"
proof -
  have f: "of_int \<lfloor>r\<rfloor> \<le> r" "r < of_int \<lfloor>r\<rfloor> + 1"
    by linarith+
  have "(round_half_even r = \<lfloor>r\<rfloor> \<and> r - of_int \<lfloor>r\<rfloor> \<le> 1 / 2) \<or>
        (round_half_even r = \<lfloor>r\<rfloor> + 1 \<and> 1 / 2 \<le> r - of_int \<lfloor>r\<rfloor>)"
    unfolding round_half_even_def Let_def by (simp del: of_int_floor_le)
  then show ?thesis
  proof
    assume a: "round_half_even r = \<lfloor>r\<rfloor> \<and> r - of_int \<lfloor>r\<rfloor> \<le> 1 / 2"
    then have e: "round_half_even r = \<lfloor>r\<rfloor>" by (rule conjunct1)
    from a have "r - of_int \<lfloor>r\<rfloor> \<le> 1 / 2" by (rule conjunct2)
    then show ?thesis unfolding e using f by linarith
  next
    assume a: "round_half_even r = \<lfloor>r\<rfloor> + 1 \<and> 1 / 2 \<le> r - of_int \<lfloor>r\<rfloor>"
    then have e: "round_half_even r = \<lfloor>r\<rfloor> + 1" by (rule conjunct1)
    from a have "1 / 2 \<le> r - of_int \<lfloor>r\<rfloor>" by (rule conjunct2)
    then show ?thesis unfolding e using f by (simp only: of_int_add of_int_1) linarith
  qed
qed

lemma round_half_even_le: "r \<le> of_int n \<Longrightarrow> round_half_even r \<le> n"
proof -
  assume "r \<le> of_int n"
  then have "(of_int (round_half_even r) :: rat) \<le> of_int n + 1 / 2"
    using round_half_even_bounds [of r] by simp
  then have "(of_int (round_half_even r) :: rat) < of_int (n + 1)"
    by simp
  then show ?thesis
    by (simp only: of_int_less_iff)
qed

lemma round_half_even_nonneg: "0 \<le> r \<Longrightarrow> 0 \<le> round_half_even r"
proof -
  assume "0 \<le> r"
  then have "(of_int (- 1) :: rat) < of_int (round_half_even r)"
    using round_half_even_bounds [of r] by simp
  then show ?thesis
    by (simp only: of_int_less_iff)
qed

lemma double_pos:
  "0 < x \<Longrightarrow> double x = of_int (round_half_even (x / pow2 (binade x - 52))) * pow2 (binade x - 52)"
  by (simp add: double_def Let_def)

lemma double_nonneg: "0 \<le> x \<Longrightarrow> 0 \<le> double x"
proof (cases "x = 0")
  case True
  then show ?thesis by (simp add: double_def)
next
  case False
  assume "0 \<le> x"
  with False have x: "0 < x" by simp
  have "0 \<le> x / pow2 (binade x - 52)"
    using x pow2_pos [of "binade x - 52"] by simp
  then have "0 \<le> round_half_even (x / pow2 (binade x - 52))"
    by (rule round_half_even_nonneg)
  then show ?thesis
    using pow2_pos [of "binade x - 52"] by (simp add: double_pos [OF x])
qed

lemma double_error:
  assumes "0 < x"
  shows "\<bar>double x - x\<bar> \<le> x / 2 ^ 53"
proof -
  let ?u = "pow2 (binade x - 52)"
  have u: "0 < ?u" by (rule pow2_pos)
  have "pow2 (binade x) = ?u * pow2 52"
    using pow2_add [of "binade x - 52" 52] by simp
  then have ux: "?u * 2 ^ 52 \<le> x"
    using binade_bounds [OF assms] by (simp add: pow2_def)
  have "\<bar>of_int (round_half_even (x / ?u)) - x / ?u\<bar> \<le> 1 / 2"
    using round_half_even_bounds [of "x / ?u"] by linarith
  then have "\<bar>of_int (round_half_even (x / ?u)) - x / ?u\<bar> * ?u \<le> 1 / 2 * ?u"
    using u by (intro mult_right_mono) simp_all
  moreover have "\<bar>of_int (round_half_even (x / ?u)) - x / ?u\<bar> * ?u = \<bar>double x - x\<bar>"
  proof -
    have "(of_int (round_half_even (x / ?u)) - x / ?u) * ?u = double x - x"
      using u by (simp add: double_pos [OF assms] left_diff_distrib)
    then have "\<bar>double x - x\<bar> = \<bar>of_int (round_half_even (x / ?u)) - x / ?u\<bar> * \<bar>?u\<bar>"
      by (simp only: abs_mult [symmetric])
    then show ?thesis using u by simp
  qed
  ultimately have "\<bar>double x - x\<bar> \<le> ?u / 2"
    by simp
  also have "\<dots> \<le> x / 2 ^ 53"
    using ux by (simp add: field_simps)
  finally show ?thesis .
qed

lemma double_le_int:
  assumes "0 < x" and "x \<le> of_int m" and "binade x \<le> 52"
  shows "double x \<le> of_int m"
proof -
  let ?u = "pow2 (binade x - 52)"
  let ?k = "(2::int) ^ nat (52 - binade x)"
  have u: "0 < ?u" by (rule pow2_pos)
  have "?u * pow2 (52 - binade x) = pow2 0"
    using pow2_add [of "binade x - 52" "52 - binade x"] by simp
  then have inv: "?u * of_int ?k = 1"
    using assms(3) by (simp add: pow2_nat)
  have "x / ?u \<le> of_int m / ?u"
    using assms(2) u by (simp add: divide_right_mono)
  also have "of_int m / ?u = of_int (m * ?k)"
    using inv u by (simp add: field_simps)
  finally have "round_half_even (x / ?u) \<le> m * ?k"
    by (rule round_half_even_le)
  then have "(of_int (round_half_even (x / ?u)) :: rat) \<le> of_int (m * ?k)"
    by (simp only: of_int_le_iff)
  then have "of_int (round_half_even (x / ?u)) * ?u \<le> of_int (m * ?k) * ?u"
    using u by (intro mult_right_mono) simp_all
  also have "of_int (m * ?k) * ?u = of_int m"
    using inv by (simp add: mult.assoc mult.commute)
  finally show ?thesis
    by (simp add: double_pos [OF assms(1)])
qed

subsection \<open>The compliance score\<close>

lemma fdiv_bounds:
  assumes "0 < a" and "a \<le> b"
  shows "0 < fdiv a b \<and> fdiv a b \<le> 1 \<and> \<bar>fdiv a b - a / b\<bar> \<le> 1 / 2 ^ 53"
proof -
  let ?x = "a / b"
  have b: "0 < b" using assms by simp
  have x: "0 < ?x" "?x \<le> 1" using assms b by simp_all
  have "?x < pow2 1" using x by (simp add: pow2_def)
  then have "binade ?x < 1" using x(1) by (intro binade_less)
  then have le1: "double ?x \<le> of_int 1"
    using x by (intro double_le_int) simp_all
  have err: "\<bar>double ?x - ?x\<bar> \<le> ?x / 2 ^ 53"
    using x(1) by (rule double_error)
  have "?x / 2 ^ 53 \<le> 1 / 2 ^ 53"
    using x(2) by (simp add: divide_right_mono)
  with err have e1: "\<bar>double ?x - ?x\<bar> \<le> 1 / 2 ^ 53" by simp
  have "?x / 2 ^ 53 < ?x" using x(1) by simp
  with err have "0 < double ?x" by linarith
  then show ?thesis
    using le1 e1 by (simp add: fdiv_def)
qed

lemma fmul_bounds:
  assumes "0 < c" and "c \<le> 1"
  shows "0 \<le> fmul c 100 \<and> fmul c 100 \<le> 100 \<and> \<bar>fmul c 100 - c * 100\<bar> \<le> 100 / 2 ^ 53"
proof -
  let ?y = "c * 100"
  have y: "0 < ?y" "?y \<le> 100" using assms by simp_all
  have "?y < pow2 7" using y by (simp add: pow2_def)
  then have "binade ?y < 7" using y(1) by (intro binade_less)
  then have le: "double ?y \<le> of_int 100"
    using y by (intro double_le_int) simp_all
  have err: "\<bar>double ?y - ?y\<bar> \<le> ?y / 2 ^ 53"
    using y(1) by (rule double_error)
  have "?y / 2 ^ 53 \<le> 100 / 2 ^ 53"
    using y(2) by (simp add: divide_right_mono)
  with err have e1: "\<bar>double ?y - ?y\<bar> \<le> 100 / 2 ^ 53" by simp
  have "0 \<le> double ?y" using y(1) by (intro double_nonneg) simp
  then show ?thesis
    using le e1 by (simp add: fmul_def)
qed

lemma product_bounds:
  assumes "0 < a" and "a \<le> b"
  shows "0 \<le> fmul (fdiv a b) 100 \<and> fmul (fdiv a b) 100 \<le> 100 \<and>
         \<bar>fmul (fdiv a b) 100 - a / b * 100\<bar> \<le> 200 / 2 ^ 53"
proof -
  note d = fdiv_bounds [OF assms]
  from d have m: "0 \<le> fmul (fdiv a b) 100 \<and> fmul (fdiv a b) 100 \<le> 100 \<and>
      \<bar>fmul (fdiv a b) 100 - fdiv a b * 100\<bar> \<le> 100 / 2 ^ 53"
    by (intro fmul_bounds) simp_all
  have "fdiv a b * 100 - a / b * 100 = (fdiv a b - a / b) * 100"
    by (simp add: algebra_simps)
  then have "\<bar>fdiv a b * 100 - a / b * 100\<bar> = \<bar>fdiv a b - a / b\<bar> * \<bar>100\<bar>"
    by (simp only: abs_mult)
  then have "\<bar>fdiv a b * 100 - a / b * 100\<bar> = \<bar>fdiv a b - a / b\<bar> * 100"
    by simp
  also have "\<dots> \<le> 1 / 2 ^ 53 * 100"
    using d by (intro mult_right_mono) simp_all
  finally have n: "\<bar>fdiv a b * 100 - a / b * 100\<bar> \<le> 100 / 2 ^ 53" by simp
  define A where "A = fmul (fdiv a b) 100"
  define B where "B = fdiv a b * 100"
  define C where "C = a / b * 100"
  define e :: rat where "e = 100 / 2 ^ 53"
  have "\<bar>A - B\<bar> \<le> e" "\<bar>B - C\<bar> \<le> e"
    using m n by (simp_all add: A_def B_def C_def e_def)
  then have "\<bar>A - C\<bar> \<le> e + e"
    by linarith
  then have "\<bar>fmul (fdiv a b) 100 - a / b * 100\<bar> \<le> 200 / 2 ^ 53"
    by (simp add: A_def C_def e_def)
  then show ?thesis using m by simp
qed

lemma Math_round_zero: "Math_round (fmul (fdiv 0 b) 100) = 0"
proof -
  have "\<lfloor>1 / 2 :: rat\<rfloor> = 0"
    by (rule floor_unique) simp_all
  then show ?thesis
    by (simp add: fdiv_def fmul_def double_def Math_round_def)
qed

lemma compliance_score_range:
  "0 \<le> compliance_score pass fail warning \<and> compliance_score pass fail warning \<le> 100"
proof (cases "pass + fail + warning > 0")
  case False
  then show ?thesis by (simp add: compliance_score_def)
next
  case True
  show ?thesis
  proof (cases "pass = 0")
    case True
    then show ?thesis by (simp add: compliance_score_def Math_round_zero)
  next
    case False
    have "0 < (of_nat pass :: rat)" "(of_nat pass :: rat) \<le> of_nat (pass + fail + warning)"
      using False by simp_all
    then have "0 \<le> fmul (fdiv (of_nat pass) (of_nat (pass + fail + warning))) 100 \<and>
        fmul (fdiv (of_nat pass) (of_nat (pass + fail + warning))) 100 \<le> 100"
      using product_bounds by blast
    then have "0 \<le> Math_round (fmul (fdiv (of_nat pass) (of_nat (pass + fail + warning))) 100) \<and>
        Math_round (fmul (fdiv (of_nat pass) (of_nat (pass + fail + warning))) 100) \<le> 100"
      unfolding Math_round_def by (simp add: le_floor_iff floor_le_iff)
    then show ?thesis using True by (simp add: compliance_score_def)
  qed
qed

lemma half_shift:
  "0 < (t::nat) \<Longrightarrow>
   (of_nat p / of_nat t) * 100 + 1 / 2 = (of_int (200 * int p + int t) :: rat) / of_int (2 * int t)"
  by (simp add: field_simps)

lemma spec_compliance_score_div:
  assumes "0 < pass + fail + warning"
  shows "spec_compliance_score pass fail warning =
           (200 * int pass + int (pass + fail + warning)) div (2 * int (pass + fail + warning))"
proof -
  let ?t = "pass + fail + warning"
  have "\<lfloor>(of_nat pass / of_nat ?t) * 100 + 1 / 2 :: rat\<rfloor> =
             (200 * int pass + int ?t) div (2 * int ?t)"
    by (simp only: half_shift [OF assms] floor_divide_of_int_eq)
  then show ?thesis
    using assms by (simp only: spec_compliance_score_def round_def if_True)
qed

lemma compliance_score_close:
  fixes pass fail warning :: nat
  defines "t \<equiv> pass + fail + warning"
  assumes "0 < t" and "t < 2 ^ 32"
  shows "spec_compliance_score pass fail warning - 1 \<le> compliance_score pass fail warning \<and>
         compliance_score pass fail warning \<le> spec_compliance_score pass fail warning \<and>
         ((200 * int pass + int t) mod (2 * int t) \<noteq> 0 \<longrightarrow>
            compliance_score pass fail warning = spec_compliance_score pass fail warning)"
proof -
  define N where "N = 200 * int pass + int t"
  define D where "D = 2 * int t"
  define k where "k = N div D"
  define m where "m = N mod D"
  define r :: rat where "r = of_nat pass / of_nat t * 100"
  define y where "y = fmul (fdiv (of_nat pass) (of_nat t)) 100"
  define e :: rat where "e = 200 / 2 ^ 53"
  have D: "0 < D" "D < 2 ^ 33"
    using assms(2,3) by (simp_all add: D_def)
  have "m < D"
    unfolding m_def using D(1) by (rule pos_mod_bound)
  moreover have "0 \<le> m"
    unfolding m_def using D(1) by (rule pos_mod_sign)
  ultimately have m: "0 \<le> m" "m + 1 \<le> D"
    by simp_all
  have spec: "spec_compliance_score pass fail warning = k"
    using assms(2) spec_compliance_score_div [of pass fail warning]
    by (simp add: t_def k_def N_def D_def)
  have score: "compliance_score pass fail warning = \<lfloor>y + 1 / 2\<rfloor>"
    using assms(2) by (simp add: compliance_score_def Math_round_def y_def t_def)
  have tq: "(0::rat) < of_nat t" using assms(2) by simp
  have "r + 1 / 2 = (of_int N :: rat) / of_int D"
    unfolding r_def N_def D_def using assms(2) by (rule half_shift)
  also have "N = D * k + m"
    by (simp add: k_def m_def)
  finally have z: "r + 1 / 2 = of_int k + of_int m / of_int D"
    using D(1) by (simp add: field_simps)
  have close: "\<bar>y - r\<bar> \<le> e"
  proof (cases "pass = 0")
    case True
    have "\<lfloor>1 / 2 :: rat\<rfloor> = 0" by (rule floor_unique) simp_all
    then show ?thesis
      using True by (simp add: y_def r_def e_def fdiv_def fmul_def double_def)
  next
    case False
    then have "0 < (of_nat pass :: rat)" "(of_nat pass :: rat) \<le> of_nat t"
      by (simp_all add: t_def)
    then show ?thesis
      using product_bounds by (simp add: y_def r_def e_def)
  qed
  have Dq: "(0::rat) < of_int D" using D(1) by simp
  have "(of_int D :: rat) < of_int (2 ^ 33)"
    using D(2) by (simp only: of_int_less_iff)
  then have "e * of_int D < 1"
    by (simp add: e_def)
  then have eD: "e < 1 / of_int D"
    using Dq by (simp add: pos_less_divide_eq)
  have e0: "0 \<le> e" "e < 1" by (simp_all add: e_def)
  define f :: rat where "f = of_int m / of_int D"
  define g :: rat where "g = 1 / of_int D"
  have "(of_int m :: rat) + 1 \<le> of_int D"
    using m(2) by (metis of_int_1 of_int_add of_int_le_iff)
  then have "(of_int m + 1) / of_int D \<le> (1::rat)"
    using Dq by (simp add: pos_divide_le_eq)
  then have fg: "f + g \<le> 1"
    by (simp add: f_def g_def add_divide_distrib)
  have f0: "0 \<le> f"
    using m(1) Dq by (simp add: f_def)
  have eg: "e < g" using eD by (simp add: g_def)
  have zf: "r + 1 / 2 = of_int k + f"
    using z by (simp add: f_def)
  have yr: "r - e \<le> y" "y \<le> r + e"
    using close by linarith+
  have up: "y + 1 / 2 < of_int k + 1"
    using yr(2) zf fg eg by linarith
  have lo: "of_int k - 1 \<le> y + 1 / 2"
    using yr(1) zf f0 e0 by linarith
  have a: "\<lfloor>y + 1 / 2\<rfloor> \<le> k"
    using up by (simp add: floor_le_iff)
  have b: "k - 1 \<le> \<lfloor>y + 1 / 2\<rfloor>"
    using lo by (simp add: le_floor_iff)
  have c: "\<lfloor>y + 1 / 2\<rfloor> = k" if "m \<noteq> 0"
  proof -
    have "1 \<le> m" using that m(1) by simp
    then have "(1::rat) \<le> of_int m"
      by (metis of_int_1 of_int_le_iff)
    then have "g \<le> f"
      using Dq by (simp add: f_def g_def divide_right_mono)
    then have "of_int k \<le> y + 1 / 2"
      using yr(1) zf eg by linarith
    then have "k \<le> \<lfloor>y + 1 / 2\<rfloor>"
      by (simp add: le_floor_iff)
    with a show ?thesis by simp
  qed
  show ?thesis
    using a b c by (simp add: spec score m_def N_def D_def)
qed

lemma tie_iff:
  fixes pass t :: nat
  assumes "0 < t" and "(200 * int pass + int t) mod (2 * int t) = 0"
  shows "frac (of_nat pass / of_nat t * 100 :: rat) = 1 / 2"
proof -
  define x :: rat where "x = of_nat pass / of_nat t * 100"
  have tq: "(0::rat) < of_nat t" using assms(1) by simp
  obtain j where j: "200 * int pass + int t = 2 * int t * j"
    using assms(2) by (auto simp add: mod_eq_0_iff_dvd)
  have "x + 1 / 2 = of_int (200 * int pass + int t) / of_int (2 * int t)"
    unfolding x_def using assms(1) by (rule half_shift)
  also have "\<dots> = of_int j"
    using tq by (simp only: j) simp
  finally have "x - 1 / 2 = of_int (j - 1)"
    by simp
  then have "x - 1 / 2 \<in> \<int>"
    by (simp only: Ints_of_int)
  moreover have "(0::rat) \<le> 1 / 2 \<and> (1 / 2 :: rat) < 1"
    by simp
  ultimately have "frac x = 1 / 2"
    by (simp only: frac_unique_iff)
  then show ?thesis by (simp only: x_def)
qed

lemma count_status_total:
  "count_status Pass cs + count_status Fail cs + count_status Warning cs = length_or_0 cs"
proof (cases cs)
  case None
  then show ?thesis by (simp add: count_status_def length_or_0_def)
next
  case (Some xs)
  have "length (filter (\<lambda>c. compliance_result.status c = Pass) xs)
      + length (filter (\<lambda>c. compliance_result.status c = Fail) xs)
      + length (filter (\<lambda>c. compliance_result.status c = Warning) xs) = length xs"
  proof (induction xs)
    case Nil
    then show ?case by simp
  next
    case (Cons x xs)
    then show ?case by (cases "compliance_result.status x") simp_all
  qed
  then show ?thesis using Some by (simp add: count_status_def length_or_0_def)
qed

lemma report_summary_score:
  "\<exists>summary. field ''summary'' (report now_iso sc d) = Some summary \<and>
     field ''compliance_score'' summary = Some (JNum (of_int (report_score d)))"
  by (simp add: report_def field_def)

text \<open>
  C3 as stated fails: the quotient and the product are rounded to doubles before
  \<open>Math.round\<close> is applied.  With 23 results passing and 17 failing the exact value is
  57.5, which rounds to 58; the double product is 57.49999999999999 and the report says 57.
\<close>

theorem compliance_score_below_exact_rounding:
  "count_status Pass (complianceResults example_report_data) = 23 \<and>
   count_status Fail (complianceResults example_report_data) = 17 \<and>
   count_status Warning (complianceResults example_report_data) = 0 \<and>
   report_score example_report_data = 57 \<and>
   (of_nat 23 / of_nat (23 + 17 + 0) * 100 :: rat) = 115 / 2 \<and>
   spec_compliance_score 23 17 0 = 58"
proof -
  have p: "count_status Pass (complianceResults example_report_data) = 23"
    by code_simp
  have f: "count_status Fail (complianceResults example_report_data) = 17"
    by code_simp
  have w: "count_status Warning (complianceResults example_report_data) = 0"
    by code_simp
  have c: "compliance_score 23 17 0 = 57"
    by code_simp
  have s: "spec_compliance_score 23 17 0 = 58"
    by code_simp
  have "report_score example_report_data = 57"
    by (simp only: report_score_def p f w c)
  then show ?thesis
    using p f w s by simp
qed

text \<open>
  C3, amended.  In every generated report the compliance score of the summary is
  \<open>Math.round((pass / (pass + fail + warning)) * 100)\<close> computed in double-precision
  arithmetic over the counts of compliance results with status pass, fail and warning.
  It is an integer between 0 and 100, it is 0 when pass + fail + warning = 0, and it
  equals the exactly rounded value round(pass / (pass + fail + warning) \<times> 100) unless
  that exact value lies half-way between two integers, where it is the rounded value or
  one less.  The list of compliance results is an array, so it has fewer than \<open>2^32\<close>
  elements.
\<close>

theorem report_compliance_score:
  fixes d :: report_data
  defines "pass \<equiv> count_status Pass (complianceResults d)"
    and "fail \<equiv> count_status Fail (complianceResults d)"
    and "warning \<equiv> count_status Warning (complianceResults d)"
  assumes "length_or_0 (complianceResults d) < 2 ^ 32"
  shows "(\<exists>summary. field ''summary'' (report now_iso sc d) = Some summary \<and>
            field ''compliance_score'' summary
              = Some (JNum (of_int (compliance_score pass fail warning)))) \<and>
         compliance_score pass fail warning =
           (if pass + fail + warning > 0
            then Math_round (fmul (fdiv (of_nat pass) (of_nat (pass + fail + warning))) 100)
            else 0) \<and>
         0 \<le> compliance_score pass fail warning \<and>
         compliance_score pass fail warning \<le> 100 \<and>
         (pass + fail + warning = 0 \<longrightarrow> compliance_score pass fail warning = 0) \<and>
         spec_compliance_score pass fail warning - 1 \<le> compliance_score pass fail warning \<and>
         compliance_score pass fail warning \<le> spec_compliance_score pass fail warning \<and>
         (frac (of_nat pass / of_nat (pass + fail + warning) * 100 :: rat) \<noteq> 1 / 2 \<longrightarrow>
            compliance_score pass fail warning = spec_compliance_score pass fail warning)"
proof -
  let ?t = "pass + fail + warning"
  have t: "?t < 2 ^ 32"
    using assms(4) count_status_total [of "complianceResults d"]
    by (simp add: pass_def fail_def warning_def)
  have js: "\<exists>summary. field ''summary'' (report now_iso sc d) = Some summary \<and>
            field ''compliance_score'' summary
              = Some (JNum (of_int (compliance_score pass fail warning)))"
    using report_summary_score [of now_iso sc d]
    by (simp only: report_score_def pass_def fail_def warning_def)
  have df: "compliance_score pass fail warning =
           (if ?t > 0 then Math_round (fmul (fdiv (of_nat pass) (of_nat ?t)) 100) else 0)"
    by (simp only: compliance_score_def)
  note rg = compliance_score_range [of pass fail warning]
  have z: "compliance_score pass fail warning = 0" if "?t = 0"
    using that by (simp add: compliance_score_def)
  have cl: "spec_compliance_score pass fail warning - 1 \<le> compliance_score pass fail warning \<and>
         compliance_score pass fail warning \<le> spec_compliance_score pass fail warning \<and>
         (frac (of_nat pass / of_nat ?t * 100 :: rat) \<noteq> 1 / 2 \<longrightarrow>
            compliance_score pass fail warning = spec_compliance_score pass fail warning)"
  proof (cases "0 < ?t")
    case False
    then show ?thesis
      by (simp add: compliance_score_def spec_compliance_score_def)
  next
    case True
    note c = compliance_score_close [OF True t]
    have "compliance_score pass fail warning = spec_compliance_score pass fail warning"
      if "frac (of_nat pass / of_nat ?t * 100 :: rat) \<noteq> 1 / 2"
    proof -
      have "(200 * int pass + int ?t) mod (2 * int ?t) \<noteq> 0"
      proof
        assume "(200 * int pass + int ?t) mod (2 * int ?t) = 0"
        with True have "frac (of_nat pass / of_nat ?t * 100 :: rat) = 1 / 2"
          by (rule tie_iff)
        with that show False by simp
      qed
      with c show ?thesis by blast
    qed
    with c show ?thesis by blast
  qed
  show ?thesis
    using js df rg z cl by blast
qed


theorem report_compliance_score_witness:
  "length_or_0 (complianceResults example_report_data) < 2 ^ 32 \<and>
   (\<exists>summary.
      field ''summary'' (report ''2024-01-01T00:00:00.000Z'' example_scan example_report_data)
        = Some summary \<and>
      field ''compliance_score'' summary = Some (JNum 57)) \<and>
   spec_compliance_score 23 17 0 - 1 \<le> compliance_score 23 17 0 \<and>
   compliance_score 23 17 0 \<le> 100"
proof -
  have l: "length_or_0 (complianceResults example_report_data) < 2 ^ 32"
    by (simp add: example_report_data_def length_or_0_def)
  have p: "count_status Pass (complianceResults example_report_data) = 23"
    by code_simp
  have f: "count_status Fail (complianceResults example_report_data) = 17"
    by code_simp
  have w: "count_status Warning (complianceResults example_report_data) = 0"
    by code_simp
  have c: "compliance_score 23 17 0 = 57"
    by code_simp
  note t = report_compliance_score [OF l, of "''2024-01-01T00:00:00.000Z''" example_scan]
  have "\<exists>summary.
      field ''summary'' (report ''2024-01-01T00:00:00.000Z'' example_scan example_report_data)
        = Some summary \<and>
      field ''compliance_score'' summary = Some (JNum 57)"
    using t by (simp only: p f w c) simp
  moreover have "spec_compliance_score 23 17 0 - 1 \<le> compliance_score 23 17 0"
    using t by (simp only: p f w) simp
  moreover have "compliance_score 23 17 0 \<le> 100"
    using t by (simp only: p f w) simp
  ultimately show ?thesis
    using l by blast
qed

end
